theory Spec2Isabelle
  imports Main "HOL-Library.Sublist"
begin

section \<open>Python values, exceptions and strings\<close>

text \<open>
  A Python \<^verbatim>\<open>str\<close> is modelled as a \<^typ>\<open>string\<close> whose characters are code points
  below 256. An exception that \<^verbatim>\<open>except Exception\<close> can catch is a value \<open>Exn msg\<close>, where
  \<open>msg\<close> is what \<^verbatim>\<open>str(e)\<close> gives. A function that may raise returns \<open>exn + 'a\<close>.

  \<open>pyval\<close> covers the values that \<^verbatim>\<open>json.loads\<close> and \<^verbatim>\<open>eval\<close> hand to this
  program. Floating-point arithmetic is outside the model: a float is carried as the text
  that \<^verbatim>\<open>json.dumps\<close> prints for it.
\<close>

datatype exn = Exn string

fun exn_str :: "exn \<Rightarrow> string" where
  "exn_str (Exn msg) = msg"

datatype pyval =
    PNone
  | PBool bool
  | PInt int
  | PFloat string
  | PStr string
  | PList "pyval list"
  | PDict "(string \<times> pyval) list"
  | PEllipsis

definition newline :: char where
  "newline = CHR 0x0A"

definition is_digit :: "char \<Rightarrow> bool" where
  "is_digit c = (48 \<le> (of_char c :: nat) \<and> (of_char c :: nat) \<le> 57)"

text \<open>\<^verbatim>\<open>str.isspace\<close>, which is also \<^verbatim>\<open>\s\<close> of a str pattern, on code points below 256.\<close>

definition is_space :: "char \<Rightarrow> bool" where
  "is_space c = (let n = (of_char c :: nat) in
     (9 \<le> n \<and> n \<le> 13) \<or> (28 \<le> n \<and> n \<le> 32) \<or> n = 133 \<or> n = 160)"

text \<open>\<^verbatim>\<open>\w\<close> of a str pattern: alphanumeric code points and the underscore.\<close>

definition is_word :: "char \<Rightarrow> bool" where
  "is_word c = (let n = (of_char c :: nat) in
     (48 \<le> n \<and> n \<le> 57) \<or> (65 \<le> n \<and> n \<le> 90) \<or> n = 95 \<or> (97 \<le> n \<and> n \<le> 122) \<or>
     n = 170 \<or> n = 178 \<or> n = 179 \<or> n = 181 \<or> n = 185 \<or> n = 186 \<or>
     (188 \<le> n \<and> n \<le> 190) \<or> (192 \<le> n \<and> n \<le> 214) \<or> (216 \<le> n \<and> n \<le> 246) \<or>
     (248 \<le> n \<and> n \<le> 255))"

text \<open>
  \<^verbatim>\<open>str.lower\<close> and \<^verbatim>\<open>str.upper\<close> on the ASCII letters. Other code points are left as
  they are; the program only compares the results with ASCII words.
\<close>

definition lower_char :: "char \<Rightarrow> char" where
  "lower_char c = (let n = (of_char c :: nat) in
     if 65 \<le> n \<and> n \<le> 90 then char_of (n + 32) else c)"

definition upper_char :: "char \<Rightarrow> char" where
  "upper_char c = (let n = (of_char c :: nat) in
     if 97 \<le> n \<and> n \<le> 122 then char_of (n - 32) else c)"

definition lower :: "string \<Rightarrow> string" where
  "lower s = map lower_char s"

definition upper :: "string \<Rightarrow> string" where
  "upper s = map upper_char s"

text \<open>\<^verbatim>\<open>s.strip()\<close> and \<^verbatim>\<open>s.strip(chars)\<close>.\<close>

definition strip :: "string \<Rightarrow> string" where
  "strip s = rev (dropWhile is_space (rev (dropWhile is_space s)))"

definition strip_chars :: "string \<Rightarrow> string \<Rightarrow> string" where
  "strip_chars cs s =
     rev (dropWhile (\<lambda>c. c \<in> set cs) (rev (dropWhile (\<lambda>c. c \<in> set cs) s)))"

text \<open>\<^verbatim>\<open>needle in haystack\<close> on strings.\<close>

definition str_in :: "string \<Rightarrow> string \<Rightarrow> bool" where
  "str_in needle haystack = sublist needle haystack"

subsection \<open>json.dumps\<close>

definition hex_digit :: "nat \<Rightarrow> char" where
  "hex_digit n = (if n < 10 then char_of (48 + n) else char_of (87 + n))"

text \<open>
  The escape of one character inside a JSON string, with \<^verbatim>\<open>ensure_ascii\<close> left at its
  default: everything outside the range from space to tilde is escaped.
\<close>

definition json_escape_char :: "char \<Rightarrow> string" where
  \<open>json_escape_char c = (let n = (of_char c :: nat) in
     if n = 34 then [CHR 0x5C, CHR 0x22]
     else if n = 92 then [CHR 0x5C, CHR 0x5C]
     else if n = 10 then [CHR 0x5C, CHR ''n'']
     else if n = 13 then [CHR 0x5C, CHR ''r'']
     else if n = 9 then [CHR 0x5C, CHR ''t'']
     else if n = 8 then [CHR 0x5C, CHR ''b'']
     else if n = 12 then [CHR 0x5C, CHR ''f'']
     else if n < 32 \<or> 126 < n then
       [CHR 0x5C, CHR ''u'', CHR ''0'', CHR ''0'', hex_digit (n div 16), hex_digit (n mod 16)]
     else [c])\<close>

definition json_quote :: "string \<Rightarrow> string" where
  "json_quote s = [CHR 0x22] @ concat (map json_escape_char s) @ [CHR 0x22]"

function str_nat :: "nat \<Rightarrow> string" where
  "str_nat n = (if n < 10 then [char_of (48 + n)]
                else str_nat (n div 10) @ [char_of (48 + n mod 10)])"
  by pat_completeness auto
termination
  by (relation "measure id") auto

definition str_int :: "int \<Rightarrow> string" where
  "str_int i = (if i < 0 then ''-'' @ str_nat (nat (- i)) else str_nat (nat i))"

fun join :: "string \<Rightarrow> string list \<Rightarrow> string" where
  "join sep [] = []"
| "join sep [x] = x"
| "join sep (x # y # ys) = x @ sep @ join sep (y # ys)"

text \<open>The first exception of a list of results, or all the values.\<close>

fun collect :: "(exn + 'a) list \<Rightarrow> exn + 'a list" where
  "collect [] = Inr []"
| "collect (Inl e # rs) = Inl e"
| "collect (Inr x # rs) = (case collect rs of Inl e \<Rightarrow> Inl e | Inr xs \<Rightarrow> Inr (x # xs))"

fun json_dumps :: "pyval \<Rightarrow> exn + string" where
  "json_dumps PNone = Inr ''null''"
| "json_dumps (PBool b) = Inr (if b then ''true'' else ''false'')"
| "json_dumps (PInt i) = Inr (str_int i)"
| "json_dumps (PFloat repr) = Inr repr"
| "json_dumps (PStr s) = Inr (json_quote s)"
| "json_dumps (PList xs) =
     (case collect (map json_dumps xs) of
        Inl e \<Rightarrow> Inl e
      | Inr parts \<Rightarrow> Inr (''['' @ join '', '' parts @ '']''))"
| "json_dumps (PDict kvs) =
     (case collect (map (\<lambda>kv. case json_dumps (snd kv) of
                               Inl e \<Rightarrow> Inl e
                             | Inr v \<Rightarrow> Inr (json_quote (fst kv) @ '': '' @ v)) kvs) of
        Inl e \<Rightarrow> Inl e
      | Inr parts \<Rightarrow> Inr (''{'' @ join '', '' parts @ ''}''))"
| "json_dumps PEllipsis = Inl (Exn ''Object of type ellipsis is not JSON serializable'')"

section \<open>Regular expressions\<close>

text \<open>
  The part of Python's \<^verbatim>\<open>re\<close> that the patterns of this program use, as a backtracking
  matcher with Python's priorities: a greedy repetition takes the longest run first, a lazy
  one the shortest, an alternation its left branch first. Repetition is only ever applied to
  a single character class in these patterns. The two flags are \<^verbatim>\<open>re.IGNORECASE\<close> and
  \<^verbatim>\<open>re.DOTALL\<close>.
\<close>

datatype cls = Digit | Word | Space | Ch char

datatype atom = Dot | Lit char | Set "cls list" | NSet "cls list"

datatype item =
    A atom
  | Star atom
  | Plus atom
  | LazyStar atom
  | Group nat "item list"
  | Alt "item list" "item list"
  | Bol
  | Eol
  | Close nat string

fun cls_match :: "bool \<Rightarrow> cls \<Rightarrow> char \<Rightarrow> bool" where
  "cls_match ic Digit c = is_digit c"
| "cls_match ic Word c = is_word c"
| "cls_match ic Space c = is_space c"
| "cls_match ic (Ch x) c = (c = x \<or> (ic \<and> lower_char c = lower_char x))"

fun amatch :: "bool \<Rightarrow> bool \<Rightarrow> atom \<Rightarrow> char \<Rightarrow> bool" where
  "amatch ic da Dot c = (da \<or> c \<noteq> newline)"
| "amatch ic da (Lit x) c = (c = x \<or> (ic \<and> lower_char c = lower_char x))"
| "amatch ic da (Set cs) c = list_ex (\<lambda>k. cls_match ic k c) cs"
| "amatch ic da (NSet cs) c = (\<not> list_ex (\<lambda>k. cls_match ic k c) cs)"

fun isz :: "item \<Rightarrow> nat" where
  "isz (A a) = 1"
| "isz (Star a) = 1"
| "isz (Plus a) = 3"
| "isz (LazyStar a) = 1"
| "isz (Group n r) = 2 + sum_list (map isz r)"
| "isz (Alt r1 r2) = 1 + sum_list (map isz r1) + sum_list (map isz r2)"
| "isz Bol = 1"
| "isz Eol = 1"
| "isz (Close n s0) = 1"

type_synonym caps = "nat \<Rightarrow> string option"

text \<open>
  \<open>m ic da w items s caps\<close> matches the items, in sequence, at the suffix \<open>s\<close> of the
  subject \<open>w\<close>, and returns the unmatched rest and the captured groups of the first way to
  match that backtracking finds. \<open>Close n s0\<close> ends group \<open>n\<close>, which began at \<open>s0\<close>.
\<close>

function m :: "bool \<Rightarrow> bool \<Rightarrow> string \<Rightarrow> item list \<Rightarrow> string \<Rightarrow> caps \<Rightarrow> (string \<times> caps) option" where
  "m ic da w [] s caps = Some (s, caps)"
| "m ic da w (A a # k) s caps =
     (case s of [] \<Rightarrow> None
      | c # cs \<Rightarrow> if amatch ic da a c then m ic da w k cs caps else None)"
| "m ic da w (Star a # k) s caps =
     (case s of [] \<Rightarrow> m ic da w k s caps
      | c # cs \<Rightarrow>
          if amatch ic da a c
          then (case m ic da w (Star a # k) cs caps of
                  Some r \<Rightarrow> Some r
                | None \<Rightarrow> m ic da w k s caps)
          else m ic da w k s caps)"
| "m ic da w (Plus a # k) s caps = m ic da w (A a # Star a # k) s caps"
| "m ic da w (LazyStar a # k) s caps =
     (case m ic da w k s caps of
        Some r \<Rightarrow> Some r
      | None \<Rightarrow>
          (case s of [] \<Rightarrow> None
           | c # cs \<Rightarrow> if amatch ic da a c then m ic da w (LazyStar a # k) cs caps else None))"
| "m ic da w (Group n r # k) s caps = m ic da w (r @ Close n s # k) s caps"
| "m ic da w (Close n s0 # k) s caps =
     m ic da w k s (caps(n \<mapsto> take (length s0 - length s) s0))"
| "m ic da w (Alt r1 r2 # k) s caps =
     (case m ic da w (r1 @ k) s caps of
        Some r \<Rightarrow> Some r
      | None \<Rightarrow> m ic da w (r2 @ k) s caps)"
| "m ic da w (Bol # k) s caps = (if length s = length w then m ic da w k s caps else None)"
| "m ic da w (Eol # k) s caps =
     (if s = [] \<or> s = [newline] then m ic da w k s caps else None)"
  by pat_completeness auto
termination
  by (relation "measures [\<lambda>(ic, da, w, items, s, caps). sum_list (map isz items),
                          \<lambda>(ic, da, w, items, s, caps). length s]") auto

text \<open>A match object: \<^verbatim>\<open>group(0)\<close> and the numbered groups.\<close>

datatype pymatch = Match string caps

fun group0 :: "pymatch \<Rightarrow> string" where
  "group0 (Match g0 caps) = g0"

fun group :: "pymatch \<Rightarrow> nat \<Rightarrow> string option" where
  "group (Match g0 caps) n = caps n"

definition match_at :: "bool \<Rightarrow> bool \<Rightarrow> item list \<Rightarrow> string \<Rightarrow> string \<Rightarrow> pymatch option" where
  "match_at ic da items w s =
     (case m ic da w items s Map.empty of
        None \<Rightarrow> None
      | Some (rest, caps) \<Rightarrow> Some (Match (take (length s - length rest) s) caps))"

text \<open>\<^verbatim>\<open>re.match\<close> tries the start of the subject only.\<close>

definition re_match :: "bool \<Rightarrow> bool \<Rightarrow> item list \<Rightarrow> string \<Rightarrow> pymatch option" where
  "re_match ic da items w = match_at ic da items w w"

text \<open>\<^verbatim>\<open>re.search\<close> tries every start position from the left, the end of the subject included.\<close>

fun search_from :: "bool \<Rightarrow> bool \<Rightarrow> item list \<Rightarrow> string \<Rightarrow> string \<Rightarrow> pymatch option" where
  "search_from ic da items w [] = match_at ic da items w []"
| "search_from ic da items w (c # cs) =
     (case match_at ic da items w (c # cs) of
        Some mo \<Rightarrow> Some mo
      | None \<Rightarrow> search_from ic da items w cs)"

definition re_search :: "bool \<Rightarrow> bool \<Rightarrow> item list \<Rightarrow> string \<Rightarrow> pymatch option" where
  "re_search ic da items w = search_from ic da items w w"

text \<open>The number of capturing groups of a pattern, \<^verbatim>\<open>len(match.groups())\<close>.\<close>

fun ngroups :: "item \<Rightarrow> nat" where
  "ngroups (Group n r) = 1 + sum_list (map ngroups r)"
| "ngroups (Alt r1 r2) = sum_list (map ngroups r1) + sum_list (map ngroups r2)"
| "ngroups i = 0"

definition lit :: "string \<Rightarrow> item list" where
  "lit s = map (\<lambda>c. A (Lit c)) s"

section \<open>tools/calculate.py\<close>

text \<open>\<^verbatim>\<open>s.replace(old, new)\<close> for a one-character \<open>old\<close>.\<close>

definition replace_char :: "char \<Rightarrow> string \<Rightarrow> string \<Rightarrow> string" where
  "replace_char old new s = concat (map (\<lambda>c. if c = old then new else [c]) s)"

text \<open>The pattern \<^verbatim>\<open>^[\d\+\-\*\/\(\)\.\s\^\%]*$\<close>.\<close>

definition allowed_chars :: "item list" where
  "allowed_chars =
     [Bol,
      Star (Set [Digit, Ch CHR ''+'', Ch CHR ''-'', Ch CHR ''*'', Ch CHR ''/'', Ch CHR ''('',
                 Ch CHR '')'', Ch CHR ''.'', Space, Ch CHR ''^'', Ch CHR ''%'']),
      Eol]"

text \<open>
  \<^verbatim>\<open>re.match\<close> on a value that may not be a str: anything else raises TypeError.
\<close>

definition re_match_val :: "bool \<Rightarrow> bool \<Rightarrow> item list \<Rightarrow> pyval \<Rightarrow> exn + pymatch option" where
  "re_match_val ic da items v =
     (case v of
        PStr s \<Rightarrow> Inr (re_match ic da items s)
      | _ \<Rightarrow> Inl (Exn ''expected string or bytes-like object''))"

text \<open>
  The body of the \<^verbatim>\<open>try\<close> block of \<open>calculate\<close>. Python's \<^verbatim>\<open>eval\<close> is the parameter
  \<open>py_eval\<close>: it returns a value or raises. The expression reaches \<open>py_eval\<close> only as a
  str, since \<^verbatim>\<open>re.match\<close> has raised on anything else.
\<close>

definition calculate_try :: "(string \<Rightarrow> exn + pyval) \<Rightarrow> pyval \<Rightarrow> exn + string" where
  "calculate_try py_eval expression =
     (case re_match_val False False allowed_chars expression of
        Inl e \<Rightarrow> Inl e
      | Inr None \<Rightarrow> json_dumps (PDict [(''error'', PStr ''Invalid characters in expression'')])
      | Inr (Some mo) \<Rightarrow>
          (case expression of
             PStr s \<Rightarrow>
               (case py_eval (replace_char CHR ''^'' ''**'' s) of
                  Inl e \<Rightarrow> Inl e
                | Inr result \<Rightarrow> json_dumps (PDict [(''result'', result)]))
           | _ \<Rightarrow> Inl (Exn ''expected string or bytes-like object'')))"

definition calculate :: "(string \<Rightarrow> exn + pyval) \<Rightarrow> pyval \<Rightarrow> exn + string" where
  "calculate py_eval expression =
     (case calculate_try py_eval expression of
        Inr s \<Rightarrow> Inr s
      | Inl e \<Rightarrow> json_dumps (PDict [(''error'', PStr (''Error calculating: '' @ exn_str e))]))"

section \<open>tools/tool_manager.py\<close>

subsection \<open>The registry\<close>

datatype tool = WebSearchTool | CalculateTool

text \<open>A tool definition: the function's name, its description, its one required parameter
  and the parameter's description.\<close>

record tool_definition =
  td_name :: string
  td_description :: string
  td_parameter :: string
  td_parameter_description :: string

definition web_search_definition :: tool_definition where
  "web_search_definition =
     \<lparr>td_name = ''web_search'',
      td_description = ''Search the web for current information on a topic'',
      td_parameter = ''query'',
      td_parameter_description = ''The search query to look up''\<rparr>"

definition calculate_definition :: tool_definition where
  "calculate_definition =
     \<lparr>td_name = ''calculate'',
      td_description = ''Evaluate a mathematical expression'',
      td_parameter = ''expression'',
      td_parameter_description = ''The mathematical expression to evaluate''\<rparr>"

text \<open>The two module dictionaries, in insertion order.\<close>

record registry =
  tools :: "(string \<times> tool) list"
  tool_definitions :: "(string \<times> tool_definition) list"

text \<open>Assignment to a dictionary key: an existing key keeps its place.\<close>

fun dict_set :: "(string \<times> 'a) list \<Rightarrow> string \<Rightarrow> 'a \<Rightarrow> (string \<times> 'a) list" where
  "dict_set [] k v = [(k, v)]"
| "dict_set ((k', v') # kvs) k v =
     (if k' = k then (k, v) # kvs else (k', v') # dict_set kvs k v)"

definition register_tool :: "string \<Rightarrow> tool \<Rightarrow> tool_definition \<Rightarrow> registry \<Rightarrow> registry" where
  "register_tool name function definition reg =
     \<lparr>tools = dict_set (tools reg) name function,
      tool_definitions = dict_set (tool_definitions reg) name definition\<rparr>"

definition load_tools :: registry where
  "load_tools =
     register_tool ''calculate'' CalculateTool calculate_definition
       (register_tool ''web_search'' WebSearchTool web_search_definition
          \<lparr>tools = [], tool_definitions = []\<rparr>)"

definition get_all_tool_definitions :: "tool_definition list" where
  "get_all_tool_definitions = map snd (tool_definitions load_tools)"

definition get_tool_function :: "string \<Rightarrow> tool option" where
  "get_tool_function name = map_of (tools load_tools) name"

subsection \<open>The patterns of detect\_tool\_call\<close>

definition dq :: char where
  "dq = CHR 0x22"

definition sq :: char where
  "sq = CHR 0x27"

datatype pattern =
    FunctionBracket
  | FunctionBracketClosed
  | FunctionBrace
  | FunctionCall
  | NameCall
  | ToolTag
  | UsingTo
  | IllSearch
  | LetMe
  | LetMeUse

text \<open>The list \<^verbatim>\<open>patterns\<close>, in the order of the source.\<close>

definition patterns :: "pattern list" where
  "patterns = [FunctionBracket, FunctionBracketClosed, FunctionBrace, FunctionCall, NameCall,
               ToolTag, UsingTo, IllSearch, LetMe, LetMeUse]"

fun pattern_rx :: "pattern \<Rightarrow> item list" where
  \<comment> \<open>\<^verbatim>\<open><function=(\w+)\s+\[(.*?)\]\<close>\<close>
  "pattern_rx FunctionBracket =
     lit ''<function='' @
     [Group 1 [Plus (Set [Word])], Plus (Set [Space]), A (Lit CHR ''[''),
      Group 2 [LazyStar Dot], A (Lit CHR '']'')]"
  \<comment> \<open>\<^verbatim>\<open><function=(\w+)\s+\[(.*?)\](?:.*?)</function>\<close>\<close>
| "pattern_rx FunctionBracketClosed =
     lit ''<function='' @
     [Group 1 [Plus (Set [Word])], Plus (Set [Space]), A (Lit CHR ''[''),
      Group 2 [LazyStar Dot], A (Lit CHR '']''), LazyStar Dot] @
     lit ''</function>''"
  \<comment> \<open>\<^verbatim>\<open><function=(\w+)\s+({.*?})>\<close>\<close>
| "pattern_rx FunctionBrace =
     lit ''<function='' @
     [Group 1 [Plus (Set [Word])], Plus (Set [Space]),
      Group 2 [A (Lit CHR ''{''), LazyStar Dot, A (Lit CHR ''}'')], A (Lit CHR ''>'')]"
  \<comment> \<open>\<^verbatim>\<open>function\s+(\w+)\(([^)]*)\)\<close>\<close>
| "pattern_rx FunctionCall =
     lit ''function'' @
     [Plus (Set [Space]), Group 1 [Plus (Set [Word])], A (Lit CHR ''(''),
      Group 2 [Star (NSet [Ch CHR '')''])], A (Lit CHR '')'')]"
  \<comment> \<open>\<^verbatim>\<open>(\w+)\(([^)]*)\)\<close>\<close>
| "pattern_rx NameCall =
     [Group 1 [Plus (Set [Word])], A (Lit CHR ''(''),
      Group 2 [Star (NSet [Ch CHR '')''])], A (Lit CHR '')'')]"
  \<comment> \<open>\<^verbatim>\<open><tool:(\w+)[^>]*>([^<]*)</tool>\<close>\<close>
| "pattern_rx ToolTag =
     lit ''<tool:'' @
     [Group 1 [Plus (Set [Word])], Star (NSet [Ch CHR ''>'']), A (Lit CHR ''>''),
      Group 2 [Star (NSet [Ch CHR ''<''])]] @
     lit ''</tool>''"
  \<comment> \<open>\<^verbatim>\<open>Using (\w+) to (?:search|query|calculate) (?:for )?"([^"]*)"\<close>\<close>
| "pattern_rx UsingTo =
     lit ''Using '' @ [Group 1 [Plus (Set [Word])]] @ lit '' to '' @
     [Alt (lit ''search'') [Alt (lit ''query'') (lit ''calculate'')]] @ lit '' '' @
     [Alt (lit ''for '') [], A (Lit dq), Group 2 [Star (NSet [Ch dq])], A (Lit dq)]"
  \<comment> \<open>\<^verbatim>\<open>I\'ll search (?:for|about) ["\']([^"\']+)["\']\<close>\<close>
| "pattern_rx IllSearch =
     lit ''I'' @ [A (Lit sq)] @ lit ''ll search '' @ [Alt (lit ''for'') (lit ''about'')] @
     lit '' '' @
     [A (Set [Ch dq, Ch sq]), Group 1 [Plus (NSet [Ch dq, Ch sq])], A (Set [Ch dq, Ch sq])]"
  \<comment> \<open>\<^verbatim>\<open>Let me (search|calculate) ["\']([^"\']+)["\']\<close>\<close>
| "pattern_rx LetMe =
     lit ''Let me '' @ [Group 1 [Alt (lit ''search'') (lit ''calculate'')]] @ lit '' '' @
     [A (Set [Ch dq, Ch sq]), Group 2 [Plus (NSet [Ch dq, Ch sq])], A (Set [Ch dq, Ch sq])]"
  \<comment> \<open>\<^verbatim>\<open>Let me use (\w+)[^\n]+"([^"]+)"\<close>\<close>
| "pattern_rx LetMeUse =
     lit ''Let me use '' @
     [Group 1 [Plus (Set [Word])], Plus (NSet [Ch newline]), A (Lit dq),
      Group 2 [Plus (NSet [Ch dq])], A (Lit dq)]"

text \<open>The list \<^verbatim>\<open>search_indicators\<close>: each is a phrase, then \<^verbatim>\<open>(.*?)[\.\n]\<close>.\<close>

definition indicator :: "string \<Rightarrow> item list" where
  "indicator phrase =
     lit phrase @ [Group 1 [LazyStar Dot], A (Set [Ch CHR ''.'', Ch newline])]"

definition search_indicators :: "item list list" where
  "search_indicators =
     [indicator ''I need to search for '',
      indicator ''I should search for '',
      indicator ''I will search for '',
      indicator ''Let me search for '',
      indicator ''I would need to look up '']"

text \<open>\<^verbatim>\<open>"key":\s*"([^"]+)"\<close> and \<^verbatim>\<open>"([^"]+)"\<close>, both searched without flags.\<close>

definition key_value_rx :: "string \<Rightarrow> item list" where
  "key_value_rx key =
     [A (Lit dq)] @ lit key @
     [A (Lit dq), A (Lit CHR '':''), Star (Set [Space]), A (Lit dq),
      Group 1 [Plus (NSet [Ch dq])], A (Lit dq)]"

definition quoted_rx :: "item list" where
  "quoted_rx = [A (Lit dq), Group 1 [Plus (NSet [Ch dq])], A (Lit dq)]"

subsection \<open>detect\_tool\_call\<close>

text \<open>
  The returned dictionary. The values of \<open>arguments\<close> are Python values: a group that did
  not take part in the match would be \<^verbatim>\<open>None\<close>.
\<close>

record detection =
  tool_name :: "string option"
  arguments :: "(string \<times> pyval) list option"
  original_text :: "string option"

definition of_group :: "string option \<Rightarrow> pyval" where
  "of_group g = (case g of None \<Rightarrow> PNone | Some s \<Rightarrow> PStr s)"

definition found :: "string \<Rightarrow> string \<Rightarrow> pyval \<Rightarrow> pymatch \<Rightarrow> detection" where
  "found name key v mo =
     \<lparr>tool_name = Some name, arguments = Some [(key, v)], original_text = Some (group0 mo)\<rparr>"

text \<open>
  The extraction of the query or of the expression from the argument text: the quoted value
  of the key, else the first quoted text, else the whole text stripped of quotes, braces,
  brackets and spaces.
\<close>

definition extract_argument :: "string \<Rightarrow> string \<Rightarrow> pyval" where
  "extract_argument key args_text =
     (case re_search False False (key_value_rx key) args_text of
        Some key_match \<Rightarrow> of_group (group key_match 1)
      | None \<Rightarrow>
          (case re_search False False quoted_rx args_text of
             Some quoted_match \<Rightarrow> of_group (group quoted_match 1)
           | None \<Rightarrow> PStr (strip_chars [dq, sq, CHR ''{'', CHR ''}'', CHR ''['', CHR '']'', CHR '' ''] args_text)))"

text \<open>
  One pass of the loop body for a pattern that has matched. The result \<open>Inr None\<close> means
  that the loop goes on to the next pattern, \<open>Inr (Some d)\<close> that the function returns
  \<open>d\<close>, and \<open>Inl e\<close> that it raises (a method called on \<^verbatim>\<open>None\<close>).
\<close>

definition let_me_case :: "pymatch \<Rightarrow> exn + detection option" where
  "let_me_case mo =
     (case group mo 1 of
        None \<Rightarrow> Inl (Exn ''NoneType object has no attribute lower'')
      | Some g1 \<Rightarrow>
          (let tool_type = lower g1; v = of_group (group mo 2) in
           if tool_type = ''search'' then Inr (Some (found ''web_search'' ''query'' v mo))
           else if tool_type = ''calculate'' then Inr (Some (found ''calculate'' ''expression'' v mo))
           else Inr None))"

definition standard_case :: "pymatch \<Rightarrow> exn + detection option" where
  "standard_case mo =
     (case group mo 1 of
        None \<Rightarrow> Inl (Exn ''NoneType object has no attribute lower'')
      | Some g1 \<Rightarrow>
          (let name0 = lower g1;
               name = (if name0 \<in> set [''websearch'', ''search'', ''googlesearch''] then ''web_search''
                       else if name0 \<in> set [''calc'', ''calculator''] then ''calculate''
                       else name0)
           in if get_tool_function name \<noteq> None then
                if name = ''web_search'' then
                  (case group mo 2 of
                     None \<Rightarrow> Inl (Exn ''expected string or bytes-like object'')
                   | Some args_text \<Rightarrow>
                       Inr (Some (found ''web_search'' ''query'' (extract_argument ''query'' args_text) mo)))
                else if name = ''calculate'' then
                  (case group mo 2 of
                     None \<Rightarrow> Inl (Exn ''expected string or bytes-like object'')
                   | Some args_text \<Rightarrow>
                       Inr (Some (found ''calculate'' ''expression''
                                    (extract_argument ''expression'' args_text) mo)))
                else Inr None
              else Inr None))"

definition on_match :: "pattern \<Rightarrow> pymatch \<Rightarrow> exn + detection option" where
  "on_match p mo =
     (if p = IllSearch then Inr (Some (found ''web_search'' ''query'' (of_group (group mo 1)) mo))
      else
        (case (if p = LetMe then let_me_case mo else Inr None) of
           Inl e \<Rightarrow> Inl e
         | Inr (Some d) \<Rightarrow> Inr (Some d)
         | Inr None \<Rightarrow>
             if 2 \<le> sum_list (map ngroups (pattern_rx p)) then standard_case mo else Inr None))"

definition try_pattern :: "pattern \<Rightarrow> string \<Rightarrow> exn + detection option" where
  "try_pattern p text =
     (case re_search True True (pattern_rx p) text of
        None \<Rightarrow> Inr None
      | Some mo \<Rightarrow> on_match p mo)"

text \<open>The first loop, over \<^verbatim>\<open>patterns\<close>.\<close>

fun scan_patterns :: "pattern list \<Rightarrow> string \<Rightarrow> exn + detection option" where
  "scan_patterns [] text = Inr None"
| "scan_patterns (p # ps) text =
     (case try_pattern p text of
        Inl e \<Rightarrow> Inl e
      | Inr (Some d) \<Rightarrow> Inr (Some d)
      | Inr None \<Rightarrow> scan_patterns ps text)"

definition try_indicator :: "item list \<Rightarrow> string \<Rightarrow> exn + detection option" where
  "try_indicator rx text =
     (case re_search True False rx text of
        None \<Rightarrow> Inr None
      | Some mo \<Rightarrow>
          (case group mo 1 of
             None \<Rightarrow> Inl (Exn ''NoneType object has no attribute strip'')
           | Some g1 \<Rightarrow>
               Inr (Some (found ''web_search'' ''query'' (PStr (strip_chars [dq, sq] (strip g1))) mo))))"

text \<open>The second loop, over \<^verbatim>\<open>search_indicators\<close>.\<close>

fun scan_indicators :: "item list list \<Rightarrow> string \<Rightarrow> exn + detection option" where
  "scan_indicators [] text = Inr None"
| "scan_indicators (rx # rxs) text =
     (case try_indicator rx text of
        Inl e \<Rightarrow> Inl e
      | Inr (Some d) \<Rightarrow> Inr (Some d)
      | Inr None \<Rightarrow> scan_indicators rxs text)"

definition detect_tool_call :: "string \<Rightarrow> exn + detection" where
  "detect_tool_call text =
     (case scan_patterns patterns text of
        Inl e \<Rightarrow> Inl e
      | Inr (Some d) \<Rightarrow> Inr d
      | Inr None \<Rightarrow>
          (case scan_indicators search_indicators text of
             Inl e \<Rightarrow> Inl e
           | Inr (Some d) \<Rightarrow> Inr d
           | Inr None \<Rightarrow> Inr \<lparr>tool_name = None, arguments = None, original_text = None\<rparr>))"

section \<open>main.py\<close>

subsection \<open>Messages, requests and the outside world\<close>

text \<open>
  A tool call of an assistant message: its id, its type and the name and JSON-encoded
  arguments of the function.
\<close>

record tool_call =
  tc_id :: string
  tc_type :: string
  tc_name :: string
  tc_arguments :: string

text \<open>
  An entry of the conversation history. A key that a message does not have is \<open>None\<close>,
  or the empty list for \<open>tool_calls\<close>.
\<close>

record message =
  role :: string
  content :: "string option"
  tool_calls :: "tool_call list"
  tool_call_id :: "string option"
  name :: "string option"

datatype tool_choice = Auto | Function string

text \<open>
  A call of \<^verbatim>\<open>client.chat.completions.create\<close>: the model, the messages, the tool
  definitions and the tool choice where they are passed. The sampling parameters
  (temperature, token limit, stream) are constants of the source that no branch reads; they
  are left out, and so are the calls of the logger and the list of feedback messages, which
  the function only appends to.
\<close>

record request =
  req_model :: string
  req_messages :: "message list"
  req_tools :: "tool_definition list option"
  req_tool_choice :: "tool_choice option"

text \<open>
  \<^verbatim>\<open>response.choices[0].message\<close> of a completion: its content and its tool calls
  (\<^verbatim>\<open>None\<close> is the empty list). Its role is always the assistant's.
\<close>

record response =
  resp_content :: "string option"
  resp_tool_calls :: "tool_call list"

text \<open>
  Everything outside the program is a parameter: the completion API as a function of the
  request that returns a message or raises, the web search (the HTTP call of
  tools/web\_search.py) as a function of its argument that returns a text or raises, and
  \<^verbatim>\<open>eval\<close> and \<^verbatim>\<open>json.loads\<close> of the Python library. The completion calls of one
  turn differ in their requests (the routing call in its model, the first call in passing
  tools), so a function of the request can answer each of them in any way.
\<close>

record world =
  client :: "request \<Rightarrow> exn + response"
  web_search :: "pyval \<Rightarrow> exn + string"
  py_eval :: "string \<Rightarrow> exn + pyval"
  json_loads :: "string \<Rightarrow> exn + pyval"

definition MODEL :: string where
  "MODEL = ''llama-3.3-70b-versatile''"

definition ROUTING_MODEL :: string where
  "ROUTING_MODEL = ''llama-3.1-8b-instant''"

definition GENERAL_MODEL :: string where
  "GENERAL_MODEL = ''llama-3.3-70b-versatile''"

definition dict_message :: "string \<Rightarrow> string option \<Rightarrow> message" where
  "dict_message r c = \<lparr>role = r, content = c, tool_calls = [], tool_call_id = None, name = None\<rparr>"

subsection \<open>route\_query\<close>

definition routing_prompt :: "string \<Rightarrow> string" where
  \<open>routing_prompt query = join [newline]
     ['''',
      ''    Given the following user query, determine if any tools are needed to answer it.'',
      ''    '',
      ''    Available tools:'',
      ''    1. CALCULATE: For mathematical calculations and arithmetic'',
      ''    2. WEB_SEARCH: For current information, facts, news, or data that requires searching the web'',
      ''    '',
      ''    For each query, respond with one of:'',
      ''    - "TOOL: CALCULATE" if a calculation tool is needed'',
      ''    - "TOOL: WEB_SEARCH" if a web search tool is needed for current information'',
      ''    - "TOOL: WEB_SEARCH, CALCULATE" if both tools might be needed'',
      ''    - "NO TOOL" if no tools are needed and you can answer from your knowledge'',
      ''    '',
      (''    User query: "'' @ query @ ''"''),
      ''    '',
      ''    Response (ONLY respond with one of the allowed formats above):'',
      ''    '']\<close>

definition routing_request :: "string \<Rightarrow> request" where
  "routing_request query =
     \<lparr>req_model = ROUTING_MODEL,
      req_messages =
        [dict_message ''system''
           (Some ''You are a routing assistant that decides which tools are needed to answer user queries.''),
         dict_message ''user'' (Some (routing_prompt query))],
      req_tools = None,
      req_tool_choice = None\<rparr>"

text \<open>
  Every exception of the \<^verbatim>\<open>try\<close> block gives the empty list: a failure of the call,
  and \<^verbatim>\<open>strip\<close> on a content that is \<^verbatim>\<open>None\<close>.
\<close>

definition route_query :: "world \<Rightarrow> string \<Rightarrow> string list" where
  "route_query w query =
     (case client w (routing_request query) of
        Inl e \<Rightarrow> []
      | Inr resp \<Rightarrow>
          (case resp_content resp of
             None \<Rightarrow> []
           | Some c \<Rightarrow>
               (let routing_decision = upper (strip c) in
                (if str_in ''WEB_SEARCH'' routing_decision then [''web_search''] else []) @
                (if str_in ''CALCULATE'' routing_decision then [''calculate''] else []))))"

subsection \<open>run\_conversation\<close>

definition system_prompt :: string where
  \<open>system_prompt = join [newline]
     [''You are a helpful AI assistant with web search and calculation capabilities.'',
      '''',
      ''IMPORTANT: When you need current information or facts, use the web_search function by calling it properly, NOT by writing it as text.'',
      ''DO NOT write things like '' @ [sq] @ ''<function=web_search>'' @ [sq] @ '' or '' @ [sq] @ ''I'' @ [sq] @ ''ll use web_search'' @ [sq] @ '' in your response.'',
      ''Instead, use the provided function calling mechanism to actually invoke the tool.'',
      '''',
      ''Similarly, for calculations, use the calculate function properly through function calling.'',
      '''',
      ''Remember:'',
      ''- For current information: Use web_search function'',
      ''- For calculations: Use calculate function'',
      ''- For questions you can answer from your knowledge: Just respond directly'']\<close>

definition default_history :: "message list" where
  "default_history = [dict_message ''system'' (Some system_prompt)]"

datatype outcome = Returned "string option" | Raised exn

text \<open>The tool choice and the model of the first call, from the routing suggestion.\<close>

definition choose_tool_choice :: "string list \<Rightarrow> tool_choice" where
  "choose_tool_choice suggested_tools =
     (if suggested_tools \<noteq> [] then
        (if length suggested_tools = 1 then Function (suggested_tools ! 0) else Auto)
      else Auto)"

definition select_model :: "string list \<Rightarrow> string" where
  "select_model suggested_tools = (if suggested_tools = [] then GENERAL_MODEL else MODEL)"

definition first_request :: "string list \<Rightarrow> message list \<Rightarrow> request" where
  "first_request suggested_tools conversation_history =
     \<lparr>req_model = select_model suggested_tools,
      req_messages = conversation_history,
      req_tools = Some get_all_tool_definitions,
      req_tool_choice = Some (choose_tool_choice suggested_tools)\<rparr>"

text \<open>The text of \<^verbatim>\<open>json.dumps({key: s})\<close> for a str \<open>s\<close>, which cannot raise.\<close>

definition dumps_str :: "string \<Rightarrow> string \<Rightarrow> string" where
  "dumps_str key s = ''{'' @ json_quote key @ '': '' @ json_quote s @ ''}''"

text \<open>\<^verbatim>\<open>d.get(key)\<close> and \<^verbatim>\<open>d.get(key, default)\<close>; on a value without \<^verbatim>\<open>get\<close> they raise.\<close>

definition py_get :: "pyval \<Rightarrow> string \<Rightarrow> pyval \<Rightarrow> exn + pyval" where
  "py_get d key dflt =
     (case d of
        PDict kvs \<Rightarrow> Inr (case map_of kvs key of None \<Rightarrow> dflt | Some v \<Rightarrow> v)
      | _ \<Rightarrow> Inl (Exn ''object has no attribute get''))"

text \<open>
  The call \<^verbatim>\<open>tool_function(query=query)\<close> and the call \<^verbatim>\<open>tool_function(expression)\<close>
  on an entry of the registry. Only \<open>web_search\<close> has a parameter called \<open>query\<close>, and
  calling \<^verbatim>\<open>None\<close> raises.
\<close>

definition call_with_query :: "world \<Rightarrow> tool option \<Rightarrow> pyval \<Rightarrow> exn + string" where
  "call_with_query w tool_function query =
     (case tool_function of
        None \<Rightarrow> Inl (Exn ''NoneType object is not callable'')
      | Some WebSearchTool \<Rightarrow> web_search w query
      | Some CalculateTool \<Rightarrow> Inl (Exn ''calculate() got an unexpected keyword argument query''))"

definition call_positional :: "world \<Rightarrow> tool option \<Rightarrow> pyval \<Rightarrow> exn + string" where
  "call_positional w tool_function arg =
     (case tool_function of
        None \<Rightarrow> Inl (Exn ''NoneType object is not callable'')
      | Some WebSearchTool \<Rightarrow> web_search w arg
      | Some CalculateTool \<Rightarrow> calculate (py_eval w) arg)"

text \<open>The tool-role message that carries a result.\<close>

definition tool_message :: "string \<Rightarrow> string \<Rightarrow> string \<Rightarrow> message" where
  "tool_message call_id function_name function_response =
     \<lparr>role = ''tool'', content = Some function_response, tool_calls = [],
      tool_call_id = Some call_id, name = Some function_name\<rparr>"

text \<open>The assistant message with one synthetic tool call.\<close>

definition tool_call_message :: "string \<Rightarrow> string \<Rightarrow> string \<Rightarrow> message" where
  "tool_call_message call_id function_name args =
     \<lparr>role = ''assistant'', content = None,
      tool_calls = [\<lparr>tc_id = call_id, tc_type = ''function'', tc_name = function_name,
                     tc_arguments = args\<rparr>],
      tool_call_id = None, name = None\<rparr>"

text \<open>The message object of a completion, as an entry of the history.\<close>

definition response_message :: "response \<Rightarrow> message" where
  "response_message r =
     \<lparr>role = ''assistant'', content = resp_content r, tool_calls = resp_tool_calls r,
      tool_call_id = None, name = None\<rparr>"

text \<open>
  The second call, over the updated history and without tools. On success the answer is
  appended and returned; on failure the given apology is returned and the history is left
  as it is.
\<close>

definition second_request :: "message list \<Rightarrow> request" where
  "second_request conversation_history =
     \<lparr>req_model = MODEL, req_messages = conversation_history,
      req_tools = None, req_tool_choice = None\<rparr>"

definition second_call :: "world \<Rightarrow> message list \<Rightarrow> string \<Rightarrow> outcome \<times> message list" where
  "second_call w conversation_history apology =
     (case client w (second_request conversation_history) of
        Inl e \<Rightarrow> (Returned (Some apology), conversation_history)
      | Inr second_response \<Rightarrow>
          (let final_response = resp_content second_response in
           (Returned final_response,
            conversation_history @ [dict_message ''assistant'' final_response])))"

text \<open>
  The body of the loop over the structured tool calls, after the arguments are decoded: the
  response of the tool, or the exception of \<^verbatim>\<open>function_args.get\<close> that nothing catches.
  A failure of the tool itself is caught and becomes an error text.
\<close>

definition tool_response :: "world \<Rightarrow> string \<Rightarrow> tool option \<Rightarrow> pyval \<Rightarrow> exn + string" where
  "tool_response w function_name tool_function function_args =
     (if function_name = ''web_search'' then
        (case py_get function_args ''query'' PNone of
           Inl e \<Rightarrow> Inl e
         | Inr query \<Rightarrow>
             Inr (case call_with_query w tool_function query of
                    Inr r \<Rightarrow> r
                  | Inl e \<Rightarrow> dumps_str ''error'' (''Search failed: '' @ exn_str e)))
      else if function_name = ''calculate'' then
        (case py_get function_args ''expression'' PNone of
           Inl e \<Rightarrow> Inl e
         | Inr expression \<Rightarrow>
             Inr (case call_positional w tool_function expression of
                    Inr r \<Rightarrow> r
                  | Inl e \<Rightarrow> dumps_str ''error'' (''Calculation failed: '' @ exn_str e)))
      else Inr (dumps_str ''error'' (''Unknown function: '' @ function_name)))"

text \<open>
  The loop over the structured tool calls. It returns the history as the loop left it, and
  the exception if \<^verbatim>\<open>json.loads\<close> or \<^verbatim>\<open>get\<close> raised. A call of an unregistered
  tool is skipped and gets no tool message.
\<close>

fun process_tool_calls :: "world \<Rightarrow> tool_call list \<Rightarrow> message list \<Rightarrow> exn option \<times> message list" where
  "process_tool_calls w [] h = (None, h)"
| "process_tool_calls w (tc # rest) h =
     (let function_name = tc_name tc; tool_function = get_tool_function function_name in
      if tool_function = None then process_tool_calls w rest h
      else
        (case json_loads w (tc_arguments tc) of
           Inl e \<Rightarrow> (Some e, h)
         | Inr function_args \<Rightarrow>
             (case tool_response w function_name tool_function function_args of
                Inl e \<Rightarrow> (Some e, h)
              | Inr function_response \<Rightarrow>
                  process_tool_calls w rest
                    (h @ [tool_message (tc_id tc) function_name function_response]))))"

text \<open>The branch of the structured tool calls (\<^verbatim>\<open>if tool_calls:\<close>).\<close>

definition structured_branch :: "world \<Rightarrow> message list \<Rightarrow> response \<Rightarrow> outcome \<times> message list" where
  "structured_branch w h rm =
     (case process_tool_calls w (resp_tool_calls rm) (h @ [response_message rm]) of
        (Some e, h') \<Rightarrow> (Raised e, h')
      | (None, h') \<Rightarrow>
          second_call w h' ''I encountered an error processing the search results. Please try again.'')"

text \<open>
  The branch of a tool call detected in the text (\<^verbatim>\<open>if tool_call_info["tool_name"]:\<close>).
  The tool runs first, then the synthetic tool call and the result are appended, then the
  second call is made.
\<close>

definition text_detected_branch ::
    "world \<Rightarrow> message list \<Rightarrow> string \<Rightarrow> (string \<times> pyval) list option \<Rightarrow> outcome \<times> message list" where
  "text_detected_branch w h detected args =
     (let tool_function = get_tool_function detected;
          apology = ''I encountered an error processing the results. Please try again.''
      in
      if detected = ''web_search'' then
        (case args of
           None \<Rightarrow> (Raised (Exn ''NoneType object has no attribute get''), h)
         | Some kvs \<Rightarrow>
             (let query = (case map_of kvs ''query'' of None \<Rightarrow> PStr '''' | Some v \<Rightarrow> v);
                  search_results =
                    (case call_with_query w tool_function query of
                       Inr r \<Rightarrow> r
                     | Inl e \<Rightarrow> dumps_str ''error'' (''Search failed: '' @ exn_str e))
              in
              case json_dumps (PDict [(''query'', query)]) of
                Inl e \<Rightarrow> (Raised e, h)
              | Inr encoded \<Rightarrow>
                  second_call w
                    (h @ [tool_call_message ''manual_web_search_call'' ''web_search'' encoded,
                          tool_message ''manual_web_search_call'' ''web_search'' search_results])
                    apology))
      else if detected = ''calculate'' then
        (case args of
           None \<Rightarrow> (Raised (Exn ''NoneType object has no attribute get''), h)
         | Some kvs \<Rightarrow>
             (let expression = (case map_of kvs ''expression'' of None \<Rightarrow> PStr '''' | Some v \<Rightarrow> v);
                  calc_results =
                    (case call_positional w tool_function expression of
                       Inr r \<Rightarrow> r
                     | Inl e \<Rightarrow> dumps_str ''error'' (''Calculation failed: '' @ exn_str e))
              in
              case json_dumps (PDict [(''expression'', expression)]) of
                Inl e \<Rightarrow> (Raised e, h)
              | Inr encoded \<Rightarrow>
                  second_call w
                    (h @ [tool_call_message ''manual_calculate_call'' ''calculate'' encoded,
                          tool_message ''manual_calculate_call'' ''calculate'' calc_results])
                    apology))
      else second_call w h apology)"

text \<open>The last lines of the function: the first response is the answer.\<close>

definition direct_answer :: "message list \<Rightarrow> string \<Rightarrow> outcome \<times> message list" where
  "direct_answer h c = (Returned (Some c), h @ [dict_message ''assistant'' (Some c)])"

text \<open>
  No tool call, structured or in the text (\<^verbatim>\<open>if suggested_tools:\<close> and below). If the
  first suggested tool is the web search, it is forced with the user's prompt as the query.
\<close>

definition fallback_branch ::
    "world \<Rightarrow> string \<Rightarrow> string list \<Rightarrow> message list \<Rightarrow> string \<Rightarrow> outcome \<times> message list" where
  "fallback_branch w user_prompt suggested_tools h c =
     (if suggested_tools \<noteq> [] then
        (let primary_tool = suggested_tools ! 0 in
         if primary_tool = ''web_search'' then
           (let search_query = user_prompt;
                search_results =
                  (case call_with_query w (get_tool_function ''web_search'') (PStr search_query) of
                     Inr r \<Rightarrow> r
                   | Inl e \<Rightarrow> dumps_str ''error'' (''Search failed: '' @ exn_str e))
            in
            second_call w
              (h @ [tool_call_message ''forced_web_search_call'' ''web_search''
                      (dumps_str ''query'' search_query),
                    tool_message ''forced_web_search_call'' ''web_search'' search_results])
              ''I encountered an error processing the results. Please try again.'')
         else direct_answer h c)
      else direct_answer h c)"

text \<open>
  The \<^verbatim>\<open>else\<close> branch of \<^verbatim>\<open>if tool_calls:\<close>. The detector raises on a content that is
  \<^verbatim>\<open>None\<close>; nothing catches that.
\<close>

definition unstructured_branch ::
    "world \<Rightarrow> string \<Rightarrow> string list \<Rightarrow> message list \<Rightarrow> response \<Rightarrow> outcome \<times> message list" where
  "unstructured_branch w user_prompt suggested_tools h rm =
     (case resp_content rm of
        None \<Rightarrow> (Raised (Exn ''expected string or bytes-like object''), h)
      | Some c \<Rightarrow>
          (case detect_tool_call c of
             Inl e \<Rightarrow> (Raised e, h)
           | Inr tool_call_info \<Rightarrow>
               (case tool_name tool_call_info of
                  None \<Rightarrow> fallback_branch w user_prompt suggested_tools h c
                | Some tn \<Rightarrow>
                    if tn \<noteq> [] then text_detected_branch w h tn (arguments tool_call_info)
                    else fallback_branch w user_prompt suggested_tools h c)))"

text \<open>
  The history at the first call: the caller's history, or the default one with the system
  prompt, and the user's message appended to it.
\<close>

definition opening_history :: "message list option \<Rightarrow> string \<Rightarrow> message list" where
  "opening_history conversation_history user_prompt =
     (case conversation_history of None \<Rightarrow> default_history | Some h0 \<Rightarrow> h0) @
     [dict_message ''user'' (Some user_prompt)]"

text \<open>
  One turn. The result is what the function returns or raises, together with the
  conversation history, which the function mutates in place.
\<close>

definition run_conversation ::
    "world \<Rightarrow> string \<Rightarrow> message list option \<Rightarrow> outcome \<times> message list" where
  "run_conversation w user_prompt conversation_history =
     (let h = opening_history conversation_history user_prompt;
          suggested_tools = route_query w user_prompt
      in
      case client w (first_request suggested_tools h) of
        Inl e \<Rightarrow>
          (Returned (Some ''I encountered an error processing your request. Please try again.''), h)
      | Inr rm \<Rightarrow>
          if resp_tool_calls rm \<noteq> [] then structured_branch w h rm
          else unstructured_branch w user_prompt suggested_tools h rm)"

section \<open>The properties, as the specification words them\<close>

text \<open>
  The characters that the specification lists as allowed in an expression: digits,
  \<^verbatim>\<open>+ - * / ( ) .\<close>, whitespace, \<^verbatim>\<open>^\<close> and \<^verbatim>\<open>%\<close>.
\<close>

definition whitelisted :: "char \<Rightarrow> bool" where
  "whitelisted c = (is_digit c \<or> c \<in> set ''+-*/().^%'' \<or> is_space c)"

text \<open>A text is a JSON object that begins with the given key.\<close>

definition json_object_with_key :: "string \<Rightarrow> string \<Rightarrow> bool" where
  "json_object_with_key key s = (prefix (''{'' @ json_quote key @ '': '') s \<and> suffix ''}'' s)"


text \<open>
  A detection result is never partially filled: the three fields are all present or all
  absent.
\<close>

definition all_or_nothing :: "detection \<Rightarrow> bool" where
  "all_or_nothing d =
     (tool_name d \<noteq> None \<and> arguments d \<noteq> None \<and> original_text d \<noteq> None \<or>
      tool_name d = None \<and> arguments d = None \<and> original_text d = None)"

text \<open>An item of a sequence closes group \<open>n\<close>: a successful match of the sequence sets it.\<close>

fun closes :: "nat \<Rightarrow> item \<Rightarrow> bool" where
  "closes n (Group k r) = (k = n)"
| "closes n (Close k s0) = (k = n)"
| "closes n i = False"

text \<open>The three fixed apologies of \<open>run_conversation\<close>.\<close>

definition apologies :: "string list" where
  "apologies =
     [''I encountered an error processing your request. Please try again.'',
      ''I encountered an error processing the search results. Please try again.'',
      ''I encountered an error processing the results. Please try again.'']"

text \<open>
  A turn has answered: a completion call has returned, the turn returns the content of that
  response, and the history is the messages of that call with one message appended, of role
  assistant and with that content.
\<close>

definition answered :: "world \<Rightarrow> outcome \<Rightarrow> message list \<Rightarrow> bool" where
  "answered w out h =
     (\<exists>req r. client w req = Inr r \<and> out = Returned (resp_content r) \<and>
        h = req_messages req @
            [\<lparr>role = ''assistant'', content = resp_content r, tool_calls = [],
              tool_call_id = None, name = None\<rparr>])"

text \<open>
  A turn has apologised: it returned one of the fixed apologies, and the history is exactly
  the messages of a completion call that has raised, with nothing appended.
\<close>

definition apologised :: "world \<Rightarrow> outcome \<Rightarrow> message list \<Rightarrow> bool" where
  "apologised w out h =
     (list_ex (\<lambda>a. out = Returned (Some a)) apologies \<and>
      (\<exists>req e. client w req = Inl e \<and> h = req_messages req))"

text \<open>
  Reading a JSON string back, as the JSON grammar defines it: the text between the quotes
  with its escapes undone. It is used to say which text an encoded argument stands for.
\<close>

definition unhex :: "char \<Rightarrow> nat option" where
  "unhex c = (let n = (of_char c :: nat) in
     if 48 \<le> n \<and> n \<le> 57 then Some (n - 48)
     else if 97 \<le> n \<and> n \<le> 102 then Some (n - 87)
     else if 65 \<le> n \<and> n \<le> 70 then Some (n - 55)
     else None)"

definition simple_escape :: "char \<Rightarrow> char option" where
  "simple_escape c = (let n = (of_char c :: nat) in
     if n = 34 then Some (char_of (34 :: nat))
     else if n = 92 then Some (char_of (92 :: nat))
     else if n = 47 then Some (char_of (47 :: nat))
     else if n = 110 then Some (char_of (10 :: nat))
     else if n = 114 then Some (char_of (13 :: nat))
     else if n = 116 then Some (char_of (9 :: nat))
     else if n = 98 then Some (char_of (8 :: nat))
     else if n = 102 then Some (char_of (12 :: nat))
     else None)"

function json_unescape :: "string \<Rightarrow> string option" where
  "json_unescape [] = Some []"
| "json_unescape (c # cs) =
     (if (of_char c :: nat) = 92 then
        (case cs of
           [] \<Rightarrow> None
         | x # rest \<Rightarrow>
             if (of_char x :: nat) = 117 then
               (case rest of
                  a # b # c' # d # rest' \<Rightarrow>
                    (case (unhex a, unhex b, unhex c', unhex d) of
                       (Some i, Some j, Some k, Some l) \<Rightarrow>
                         (if ((i * 16 + j) * 16 + k) * 16 + l < 256
                          then map_option ((#) (char_of (((i * 16 + j) * 16 + k) * 16 + l)))
                                 (json_unescape rest')
                          else None)
                     | _ \<Rightarrow> None)
                | _ \<Rightarrow> None)
             else
               (case simple_escape x of
                  None \<Rightarrow> None
                | Some y \<Rightarrow> map_option ((#) y) (json_unescape rest)))
      else if (of_char c :: nat) = 34 then None
      else map_option ((#) c) (json_unescape cs))"
  by pat_completeness auto
termination
  by (relation "measure length") auto

definition json_string_value :: "string \<Rightarrow> string option" where
  "json_string_value s =
     (case s of
        [] \<Rightarrow> None
      | q # rest \<Rightarrow>
          if (of_char q :: nat) = 34 \<and> rest \<noteq> [] \<and> (of_char (last rest) :: nat) = 34
          then json_unescape (butlast rest)
          else None)"

text \<open>
  The ids of the tool calls of the assistant messages of a history, and the number of them
  that a tool message at position \<open>i\<close> matches among those that precede it.
\<close>

definition call_ids :: "message list \<Rightarrow> string list" where
  "call_ids h = map tc_id (concat (map tool_calls (filter (\<lambda>msg. role msg = ''assistant'') h)))"

definition matches :: "message list \<Rightarrow> nat \<Rightarrow> nat" where
  "matches h i = length (filter (\<lambda>c. Some c = tool_call_id (h ! i)) (call_ids (take i h)))"

definition tool_ids_exactly_one :: "message list \<Rightarrow> bool" where
  "tool_ids_exactly_one h =
     list_all (\<lambda>i. role (h ! i) = ''tool'' \<longrightarrow> matches h i = 1) [0..<length h]"

definition tool_ids_matched :: "message list \<Rightarrow> bool" where
  "tool_ids_matched h =
     list_all (\<lambda>i. role (h ! i) = ''tool'' \<longrightarrow> 1 \<le> matches h i) [0..<length h]"

subsection \<open>Example worlds\<close>

text \<open>
  A world with scripted completions: one outcome for the routing call (recognised by its
  model), one for the first call of a turn (the one that passes tools) and one for the
  second. The web search finds nothing, and \<^verbatim>\<open>eval\<close> and \<^verbatim>\<open>json.loads\<close> reject
  their input.
\<close>

definition scripted :: "(exn + response) \<Rightarrow> (exn + response) \<Rightarrow> (exn + response) \<Rightarrow> world" where
  "scripted routing first second =
     \<lparr>client = (\<lambda>r. if req_model r = ROUTING_MODEL then routing
                      else if req_tools r \<noteq> None then first
                      else second),
      web_search = (\<lambda>q. Inr ''No results found''),
      py_eval = (\<lambda>s. Inl (Exn ''invalid syntax'')),
      json_loads = (\<lambda>s. Inl (Exn ''Expecting value''))\<rparr>"

definition answer :: "string \<Rightarrow> exn + response" where
  "answer c = Inr \<lparr>resp_content = Some c, resp_tool_calls = []\<rparr>"

definition failure :: "exn + response" where
  "failure = Inl (Exn ''Connection error.'')"

section \<open>Theorems: calculate\<close>

lemma star_eol:
  "amatch ic da a newline \<Longrightarrow>
   (m ic da w [Star a, Eol] s caps \<noteq> None) = list_all (amatch ic da a) s"
proof (induction s)
  case Nil
  then show ?case by simp
next
  case (Cons c cs)
  show ?case
  proof (cases "amatch ic da a c")
    case True
    show ?thesis
    proof (cases "m ic da w [Star a, Eol] cs caps")
      case None
      with Cons have "\<not> list_all (amatch ic da a) cs" by simp
      then have "cs \<noteq> []" by auto
      with None True show ?thesis using Cons by simp
    next
      case (Some r)
      with Cons True show ?thesis by simp
    qed
  next
    case False
    with Cons.prems have "c \<noteq> newline" by auto
    with False show ?thesis by simp
  qed
qed

lemma allowed_class:
  "amatch False False (Set [Digit, Ch CHR ''+'', Ch CHR ''-'', Ch CHR ''*'', Ch CHR ''/'', Ch CHR ''('',
                 Ch CHR '')'', Ch CHR ''.'', Space, Ch CHR ''^'', Ch CHR ''%'']) c = whitelisted c"
  by (auto simp: whitelisted_def)

lemma newline_space: "is_space newline"
  by (simp add: is_space_def newline_def)

lemma re_match_allowed:
  "(re_match False False allowed_chars s \<noteq> None) = list_all whitelisted s"
proof -
  let ?a = "Set [Digit, Ch CHR ''+'', Ch CHR ''-'', Ch CHR ''*'', Ch CHR ''/'', Ch CHR ''('',
                 Ch CHR '')'', Ch CHR ''.'', Space, Ch CHR ''^'', Ch CHR ''%'']"
  have "whitelisted newline" by (simp add: whitelisted_def newline_space)
  then have nl: "amatch False False ?a newline" by (simp only: allowed_class)
  have "(re_match False False allowed_chars s \<noteq> None) =
        (m False False s [Star ?a, Eol] s Map.empty \<noteq> None)"
    by (simp add: re_match_def match_at_def allowed_chars_def split: option.splits del: m.simps(3))
  also have "\<dots> = list_all (amatch False False ?a) s"
    by (rule star_eol [OF nl])
  also have "\<dots> = list_all whitelisted s"
    using allowed_class by (intro arg_cong2 [where f = list_all] ext refl)
  finally show ?thesis .
qed

lemma dumps_single:
  "json_dumps (PDict [(k, v)]) =
     (case json_dumps v of Inl e \<Rightarrow> Inl e
      | Inr s \<Rightarrow> Inr (''{'' @ json_quote k @ '': '' @ s @ ''}''))"
  by (simp split: sum.splits)

lemma dumps_error:
  "json_dumps (PDict [(''error'', PStr msg)]) = Inr (''{'' @ json_quote ''error'' @ '': '' @ json_quote msg @ ''}'')"
  by (simp add: dumps_single)

lemma key_intro: "json_object_with_key k (''{'' @ json_quote k @ '': '' @ v @ ''}'')"
  unfolding json_object_with_key_def
  by (metis append.assoc prefixI suffixI)

lemma calculate_str:
  "calculate ev (PStr e) =
     (if list_all whitelisted e then
        (case ev (replace_char CHR ''^'' ''**'' e) of
           Inl ex \<Rightarrow> json_dumps (PDict [(''error'', PStr (''Error calculating: '' @ exn_str ex))])
         | Inr r \<Rightarrow>
             (case json_dumps (PDict [(''result'', r)]) of
                Inl ex \<Rightarrow> json_dumps (PDict [(''error'', PStr (''Error calculating: '' @ exn_str ex))])
              | Inr s \<Rightarrow> Inr s))
      else json_dumps (PDict [(''error'', PStr ''Invalid characters in expression'')]))"
proof (cases "re_match False False allowed_chars e")
  case None
  then have "\<not> list_all whitelisted e" using re_match_allowed [of e] by simp
  with None show ?thesis
    by (simp add: calculate_def calculate_try_def re_match_val_def dumps_error del: json_dumps.simps)
next
  case (Some mo)
  then have "list_all whitelisted e" using re_match_allowed [of e] by simp
  with Some show ?thesis
    by (simp add: calculate_def calculate_try_def re_match_val_def del: json_dumps.simps split: sum.splits)
qed

lemma calculate_not_str:
  "\<forall>e. expression \<noteq> PStr e \<Longrightarrow>
   calculate ev expression =
     json_dumps (PDict [(''error'', PStr (''Error calculating: '' @ ''expected string or bytes-like object''))])"
  by (cases expression) (simp_all add: calculate_def calculate_try_def re_match_val_def del: json_dumps.simps)

lemma error_object:
  "\<exists>s. json_dumps (PDict [(''error'', PStr msg)]) = Inr s \<and> json_object_with_key ''error'' s"
  using dumps_error [of msg] key_intro [of "''error''" "json_quote msg"] by simp

lemma result_object:
  "json_dumps (PDict [(''result'', r)]) = Inr s \<Longrightarrow> json_object_with_key ''result'' s"
  using key_intro [of "''result''"] by (auto simp: dumps_single simp del: json_dumps.simps split: sum.splits)

lemma calculate_shape:
  "\<exists>s. calculate ev expression = Inr s \<and>
       (json_object_with_key ''result'' s \<or> json_object_with_key ''error'' s)"
proof (cases "\<exists>e. expression = PStr e")
  case True
  then obtain e where e: "expression = PStr e" by blast
  show ?thesis
  proof (cases "list_all whitelisted e")
    case False
    then show ?thesis unfolding e calculate_str using error_object by (auto simp del: json_dumps.simps)
  next
    case wl: True
    show ?thesis
    proof (cases "ev (replace_char CHR ''^'' ''**'' e)")
      case (Inl ex)
      with wl show ?thesis unfolding e calculate_str using error_object by (auto simp del: json_dumps.simps)
    next
      case (Inr r)
      show ?thesis
      proof (cases "json_dumps (PDict [(''result'', r)])")
        case (Inl ex)
        with wl Inr show ?thesis unfolding e calculate_str
          using error_object [of "''Error calculating: '' @ exn_str ex"]
          by (auto simp del: json_dumps.simps)
      next
        case res: (Inr s)
        with wl Inr show ?thesis unfolding e calculate_str using result_object [OF res]
          by (auto simp del: json_dumps.simps)
      qed
    qed
  qed
next
  case False
  then show ?thesis
    using error_object [of "''Error calculating: '' @ ''expected string or bytes-like object''"]
    by (auto simp: calculate_not_str simp del: json_dumps.simps)
qed


text \<open>
  Claim C7. For every argument, a str or not, and whatever \<^verbatim>\<open>eval\<close> does, \<open>calculate\<close>
  returns (it never raises) a JSON object with the key \<open>result\<close> or the key \<open>error\<close>. If
  the expression has a character outside the allowed set, the object is the error
  "Invalid characters in expression".
\<close>

theorem calculate_result_or_error:
  \<open>(\<exists>s. calculate ev expression = Inr s \<and>
        (json_object_with_key ''result'' s \<or> json_object_with_key ''error'' s)) \<and>
   (\<not> list_all whitelisted e \<longrightarrow>
      calculate ev (PStr e) = Inr ''{"error": "Invalid characters in expression"}'')\<close>
proof
  show "\<exists>s. calculate ev expression = Inr s \<and>
        (json_object_with_key ''result'' s \<or> json_object_with_key ''error'' s)"
    by (rule calculate_shape)
  show \<open>\<not> list_all whitelisted e \<longrightarrow>
      calculate ev (PStr e) = Inr ''{"error": "Invalid characters in expression"}''\<close>
    by (simp add: calculate_str json_quote_def json_escape_char_def)
qed

theorem calculate_result_or_error_witness:
  \<open>\<not> list_all whitelisted ''2+a'' \<and>
   calculate (\<lambda>s. Inr (PInt 0)) (PStr ''2+a'') = Inr ''{"error": "Invalid characters in expression"}''\<close>
proof -
  have h: "\<not> list_all whitelisted ''2+a''"
    by (simp add: whitelisted_def is_digit_def is_space_def)
  show ?thesis
    using h calculate_result_or_error [of "\<lambda>s. Inr (PInt 0)" "PStr ''2+a''" "''2+a''"] by blast
qed





section \<open>Theorems: route\_query\<close>

















section \<open>Theorems: detect\_tool\_call\<close>

lemma m_sets_group:
  "m ic da w items s caps = Some (rest, caps') \<Longrightarrow>
   caps n \<noteq> None \<or> list_ex (closes n) items \<Longrightarrow> caps' n \<noteq> None"
proof (induction ic da w items s caps rule: m.induct)
  case (1 ic da w s caps)
  then show ?case by simp
next
  case (2 ic da w a k s caps)
  then show ?case by (cases s) (auto split: if_splits)
next
  case (3 ic da w a k s caps)
  show ?case
  proof (cases s)
    case Nil
    with 3 show ?thesis by auto
  next
    case (Cons c cs)
    show ?thesis
    proof (cases "amatch ic da a c")
      case True
      show ?thesis
      proof (cases "m ic da w (Star a # k) cs caps")
        case None
        with 3 Cons True show ?thesis by auto
      next
        case (Some r)
        with 3 Cons True show ?thesis by auto
      qed
    next
      case False
      with 3 Cons show ?thesis by auto
    qed
  qed
next
  case (4 ic da w a k s caps)
  then show ?case by auto
next
  case (5 ic da w a k s caps)
  show ?case
  proof (cases "m ic da w k s caps")
    case (Some r)
    with 5 show ?thesis by auto
  next
    case None
    with 5 show ?thesis by (cases s) (auto split: if_splits)
  qed
next
  case (6 ic da w n' r k s caps)
  then show ?case by auto
next
  case (7 ic da w n' s0 k s caps)
  from 7(2) have run: "m ic da w k s (caps(n' \<mapsto> take (length s0 - length s) s0)) = Some (rest, caps')"
    by simp
  have "(caps(n' \<mapsto> take (length s0 - length s) s0)) n \<noteq> None \<or> list_ex (closes n) k"
    using 7(3) by auto
  with 7(1) [OF run] show ?case .
next
  case (8 ic da w r1 r2 k s caps)
  show ?case
  proof (cases "m ic da w (r1 @ k) s caps")
    case (Some r)
    with 8 show ?thesis by auto
  next
    case None
    with 8 show ?thesis by auto
  qed
next
  case (9 ic da w k s caps)
  then show ?case by (auto split: if_splits)
next
  case (10 ic da w k s caps)
  then show ?case by (auto split: if_splits)
qed

lemma match_at_group:
  "match_at ic da items w s = Some mo \<Longrightarrow> list_ex (closes n) items \<Longrightarrow> group mo n \<noteq> None"
  using m_sets_group [of ic da w items s Map.empty _ _ n]
  by (auto simp: match_at_def split: option.splits)

lemma search_from_group:
  "search_from ic da items w s = Some mo \<Longrightarrow> list_ex (closes n) items \<Longrightarrow> group mo n \<noteq> None"
proof (induction s)
  case Nil
  then show ?case using match_at_group by simp
next
  case (Cons c cs)
  then show ?case using match_at_group [of ic da items w "c # cs"]
    by (auto split: option.splits)
qed

lemma re_search_group:
  "re_search ic da items w = Some mo \<Longrightarrow> list_ex (closes n) items \<Longrightarrow> group mo n \<noteq> None"
  unfolding re_search_def by (rule search_from_group)

lemma pattern_group1: "list_ex (closes 1) (pattern_rx p)"
  by (cases p) (simp_all add: lit_def)

lemma pattern_group2: "p \<noteq> IllSearch \<Longrightarrow> list_ex (closes 2) (pattern_rx p)"
  by (cases p) (simp_all add: lit_def)

lemma indicator_group1: "list_ex (closes 1) (indicator phrase)"
  by (simp add: indicator_def lit_def)

lemma found_filled: "all_or_nothing (found nm key v mo)"
  by (simp add: all_or_nothing_def found_def)

lemma let_me_case_ok:
  assumes "group mo 1 \<noteq> None"
  shows "\<exists>r. let_me_case mo = Inr r \<and> (\<forall>d. r = Some d \<longrightarrow> all_or_nothing d)"
  using assms by (auto simp: let_me_case_def Let_def found_filled)

lemma standard_case_ok:
  assumes "group mo 1 \<noteq> None" "group mo 2 \<noteq> None"
  shows "\<exists>r. standard_case mo = Inr r \<and> (\<forall>d. r = Some d \<longrightarrow> all_or_nothing d)"
  using assms by (auto simp: standard_case_def Let_def found_filled)

lemma on_match_ok:
  assumes "re_search True True (pattern_rx p) text = Some mo"
  shows "\<exists>r. on_match p mo = Inr r \<and> (\<forall>d. r = Some d \<longrightarrow> all_or_nothing d)"
proof (cases "p = IllSearch")
  case True
  then show ?thesis by (simp add: on_match_def found_filled)
next
  case False
  have g1: "group mo 1 \<noteq> None" by (rule re_search_group [OF assms pattern_group1])
  have g2: "group mo 2 \<noteq> None" by (rule re_search_group [OF assms pattern_group2 [OF False]])
  from let_me_case_ok [OF g1] obtain r1 where
    r1: "let_me_case mo = Inr r1" "\<forall>d. r1 = Some d \<longrightarrow> all_or_nothing d" by blast
  from standard_case_ok [OF g1 g2] obtain r2 where
    r2: "standard_case mo = Inr r2" "\<forall>d. r2 = Some d \<longrightarrow> all_or_nothing d" by blast
  show ?thesis
    using False r1 r2 by (cases r1) (auto simp: on_match_def)
qed

lemma try_pattern_ok:
  "\<exists>r. try_pattern p text = Inr r \<and> (\<forall>d. r = Some d \<longrightarrow> all_or_nothing d)"
proof (cases "re_search True True (pattern_rx p) text")
  case None
  then show ?thesis by (simp add: try_pattern_def)
next
  case (Some mo)
  with on_match_ok [OF Some] show ?thesis by (simp add: try_pattern_def)
qed

lemma scan_patterns_ok:
  "\<exists>r. scan_patterns ps text = Inr r \<and> (\<forall>d. r = Some d \<longrightarrow> all_or_nothing d)"
proof (induction ps)
  case Nil
  then show ?case by simp
next
  case (Cons p ps)
  from try_pattern_ok [of p "text"] obtain r where
    r: "try_pattern p text = Inr r" "\<forall>d. r = Some d \<longrightarrow> all_or_nothing d" by blast
  show ?case using r Cons by (cases r) auto
qed

lemma try_indicator_ok:
  assumes "list_ex (closes 1) rx"
  shows "\<exists>r. try_indicator rx text = Inr r \<and> (\<forall>d. r = Some d \<longrightarrow> all_or_nothing d)"
proof (cases "re_search True False rx text")
  case None
  then show ?thesis by (simp add: try_indicator_def)
next
  case (Some mo)
  have "group mo 1 \<noteq> None" by (rule re_search_group [OF Some assms])
  with Some show ?thesis by (auto simp: try_indicator_def found_filled)
qed

lemma scan_indicators_ok:
  "list_all (list_ex (closes 1)) rxs \<Longrightarrow>
   \<exists>r. scan_indicators rxs text = Inr r \<and> (\<forall>d. r = Some d \<longrightarrow> all_or_nothing d)"
proof (induction rxs)
  case Nil
  then show ?case by simp
next
  case (Cons rx rxs)
  then have "list_ex (closes 1) rx" by simp
  from try_indicator_ok [OF this, of "text"] obtain r where
    r: "try_indicator rx text = Inr r" "\<forall>d. r = Some d \<longrightarrow> all_or_nothing d" by blast
  show ?case using r Cons by (cases r) auto
qed

lemma search_indicators_groups: "list_all (list_ex (closes 1)) search_indicators"
  using indicator_group1 by (simp add: search_indicators_def)

lemma detect_tool_call_ok:
  "\<exists>d. detect_tool_call text = Inr d \<and> all_or_nothing d"
proof -
  from scan_patterns_ok [of patterns "text"] obtain r1 where
    r1: "scan_patterns patterns text = Inr r1" "\<forall>d. r1 = Some d \<longrightarrow> all_or_nothing d" by blast
  from scan_indicators_ok [OF search_indicators_groups, of "text"] obtain r2 where
    r2: "scan_indicators search_indicators text = Inr r2" "\<forall>d. r2 = Some d \<longrightarrow> all_or_nothing d" by blast
  show ?thesis
    using r1 r2 by (cases r1; cases r2) (auto simp: detect_tool_call_def all_or_nothing_def)
qed

text \<open>
  Claim C6. For every text, \<open>detect_tool_call\<close> returns (no method is ever called on
  \<^verbatim>\<open>None\<close>, since every group that the code reads takes part in every match of its
  pattern), and the result has its tool name, its arguments and its original text all
  present or all absent.
\<close>

theorem detection_never_partial:
  "\<exists>d. detect_tool_call t = Inr d \<and> all_or_nothing d"
  by (rule detect_tool_call_ok)

theorem detection_never_partial_witness:
  \<open>detect_tool_call ''Let me search "cats"'' =
     Inr \<lparr>tool_name = Some ''web_search'', arguments = Some [(''query'', PStr ''cats'')],
          original_text = Some ''Let me search "cats"''\<rparr> \<and>
   all_or_nothing \<lparr>tool_name = Some ''web_search'', arguments = Some [(''query'', PStr ''cats'')],
          original_text = Some ''Let me search "cats"''\<rparr> \<and>
   detect_tool_call ''Paris.'' = Inr \<lparr>tool_name = None, arguments = None, original_text = None\<rparr> \<and>
   all_or_nothing \<lparr>tool_name = None, arguments = None, original_text = None\<rparr>\<close>
proof -
  have a: \<open>detect_tool_call ''Let me search "cats"'' =
     Inr \<lparr>tool_name = Some ''web_search'', arguments = Some [(''query'', PStr ''cats'')],
          original_text = Some ''Let me search "cats"''\<rparr>\<close>
    by code_simp
  have b: \<open>detect_tool_call ''Paris.'' = Inr \<lparr>tool_name = None, arguments = None, original_text = None\<rparr>\<close>
    by code_simp
  show ?thesis
    using a b detection_never_partial [of \<open>''Let me search "cats"''\<close>] detection_never_partial [of "''Paris.''"]
    by simp
qed

lemma scan_patterns_first:
  "\<forall>q\<in>set ps1. try_pattern q t = Inr None \<Longrightarrow> try_pattern p t = Inr (Some d) \<Longrightarrow>
   scan_patterns (ps1 @ p # ps2) t = Inr (Some d)"
  by (induction ps1) simp_all

text \<open>
  Claim C2, as amended. The patterns are tried in the order of the list, and the first one
  that yields a result gives the result of \<open>detect_tool_call\<close>. The generic
  \<^verbatim>\<open>name(args)\<close> pattern is the fifth of the ten: only the three \<^verbatim>\<open><function=\<close>
  patterns and \<^verbatim>\<open>function name(args)\<close> come before it, and the tool tag, the phrase
  "Using X to", "I'll search" and the two "Let me" patterns come after it.
\<close>

theorem first_result_wins:
  "(\<forall>ps1 p ps2 d.
      patterns = ps1 @ p # ps2 \<and> (\<forall>q\<in>set ps1. try_pattern q t = Inr None) \<and>
      try_pattern p t = Inr (Some d) \<longrightarrow> detect_tool_call t = Inr d) \<and>
   patterns = [FunctionBracket, FunctionBracketClosed, FunctionBrace, FunctionCall] @
              NameCall # [ToolTag, UsingTo, IllSearch, LetMe, LetMeUse]"
proof (intro conjI allI impI)
  fix ps1 p ps2 d
  assume h: "patterns = ps1 @ p # ps2 \<and> (\<forall>q\<in>set ps1. try_pattern q t = Inr None) \<and>
      try_pattern p t = Inr (Some d)"
  then have "scan_patterns patterns t = Inr (Some d)"
    using scan_patterns_first [of ps1 t p d ps2] by simp
  then show "detect_tool_call t = Inr d" by (simp add: detect_tool_call_def)
next
  show "patterns = [FunctionBracket, FunctionBracketClosed, FunctionBrace, FunctionCall] @
              NameCall # [ToolTag, UsingTo, IllSearch, LetMe, LetMeUse]"
    by (simp add: patterns_def)
qed

lemma example_name_call:
  \<open>try_pattern NameCall ''I'll search for "a" calc(1)'' =
     Inr (Some \<lparr>tool_name = Some ''calculate'', arguments = Some [(''expression'', PStr ''1'')],
                original_text = Some ''calc(1)''\<rparr>)\<close>
  by code_simp

lemma example_before_name_call:
  \<open>list_all (\<lambda>q. try_pattern q ''I'll search for "a" calc(1)'' = Inr None)
     [FunctionBracket, FunctionBracketClosed, FunctionBrace, FunctionCall]\<close>
  by code_simp

lemma example_ill_search:
  \<open>try_pattern IllSearch ''I'll search for "a" calc(1)'' =
     Inr (Some \<lparr>tool_name = Some ''web_search'', arguments = Some [(''query'', PStr ''a'')],
                original_text = Some ''I'll search for "a"''\<rparr>)\<close>
  by code_simp

theorem first_result_wins_witness:
  \<open>patterns = [FunctionBracket, FunctionBracketClosed, FunctionBrace, FunctionCall] @
              NameCall # [ToolTag, UsingTo, IllSearch, LetMe, LetMeUse] \<and>
   list_all (\<lambda>q. try_pattern q ''I'll search for "a" calc(1)'' = Inr None)
     [FunctionBracket, FunctionBracketClosed, FunctionBrace, FunctionCall] \<and>
   try_pattern NameCall ''I'll search for "a" calc(1)'' =
     Inr (Some \<lparr>tool_name = Some ''calculate'', arguments = Some [(''expression'', PStr ''1'')],
                original_text = Some ''calc(1)''\<rparr>) \<and>
   detect_tool_call ''I'll search for "a" calc(1)'' =
     Inr \<lparr>tool_name = Some ''calculate'', arguments = Some [(''expression'', PStr ''1'')],
          original_text = Some ''calc(1)''\<rparr>\<close>
proof -
  note inst = first_result_wins [of \<open>''I'll search for "a" calc(1)''\<close>]
  from inst have p: "patterns = [FunctionBracket, FunctionBracketClosed, FunctionBrace, FunctionCall] @
              NameCall # [ToolTag, UsingTo, IllSearch, LetMe, LetMeUse]" by blast
  have q: \<open>\<forall>q\<in>set [FunctionBracket, FunctionBracketClosed, FunctionBrace, FunctionCall].
             try_pattern q ''I'll search for "a" calc(1)'' = Inr None\<close>
    using example_before_name_call by (simp only: list_all_iff)
  from inst p q example_name_call
  have \<open>detect_tool_call ''I'll search for "a" calc(1)'' =
     Inr \<lparr>tool_name = Some ''calculate'', arguments = Some [(''expression'', PStr ''1'')],
          original_text = Some ''calc(1)''\<rparr>\<close>
    by blast
  with p example_before_name_call example_name_call show ?thesis by blast
qed

text \<open>
  Claim C2 as the specification states it fails: on this text the first-person pattern
  "I'll search" matches and would give a web search for \<open>a\<close>, yet the result is the one
  of the generic \<^verbatim>\<open>name(args)\<close> pattern, which comes earlier in the list.
\<close>

theorem name_call_not_last_counterexample:
  \<open>try_pattern IllSearch ''I'll search for "a" calc(1)'' =
     Inr (Some \<lparr>tool_name = Some ''web_search'', arguments = Some [(''query'', PStr ''a'')],
                original_text = Some ''I'll search for "a"''\<rparr>) \<and>
   try_pattern NameCall ''I'll search for "a" calc(1)'' =
     Inr (Some \<lparr>tool_name = Some ''calculate'', arguments = Some [(''expression'', PStr ''1'')],
                original_text = Some ''calc(1)''\<rparr>) \<and>
   detect_tool_call ''I'll search for "a" calc(1)'' =
     Inr \<lparr>tool_name = Some ''calculate'', arguments = Some [(''expression'', PStr ''1'')],
          original_text = Some ''calc(1)''\<rparr>\<close>
proof -
  have \<open>detect_tool_call ''I'll search for "a" calc(1)'' =
     Inr \<lparr>tool_name = Some ''calculate'', arguments = Some [(''expression'', PStr ''1'')],
          original_text = Some ''calc(1)''\<rparr>\<close>
    by code_simp
  with example_ill_search example_name_call show ?thesis by blast
qed

section \<open>Theorems: run\_conversation\<close>

lemma second_call_raw:
  "second_call w h ap =
     (case client w \<lparr>req_model = ''llama-3.3-70b-versatile'', req_messages = h,
                      req_tools = None, req_tool_choice = None\<rparr> of
        Inl e \<Rightarrow> (Returned (Some ap), h)
      | Inr r \<Rightarrow>
          (Returned (resp_content r),
           h @ [\<lparr>role = ''assistant'', content = resp_content r, tool_calls = [],
                 tool_call_id = None, name = None\<rparr>]))"
  by (simp add: second_call_def second_request_def MODEL_def dict_message_def Let_def
           split: sum.splits)

lemma second_call_shape:
  assumes "second_call w h ap = (out, h')" "ap \<in> set apologies"
  shows "answered w out h' \<or> apologised w out h'"
proof (cases "client w (second_request h)")
  case (Inl e)
  with assms(1) have o: "out = Returned (Some ap)" "h' = h"
    by (simp_all add: second_call_def)
  have "h = req_messages (second_request h)" by (simp add: second_request_def)
  with Inl have "\<exists>req e. client w req = Inl e \<and> h = req_messages req" by blast
  with o assms(2) show ?thesis
    by (auto simp: apologised_def list_ex_iff)
next
  case (Inr r)
  with assms(1) have o: "out = Returned (resp_content r)"
    "h' = h @ [\<lparr>role = ''assistant'', content = resp_content r, tool_calls = [],
                tool_call_id = None, name = None\<rparr>]"
    by (simp_all add: second_call_def Let_def dict_message_def)
  have "h = req_messages (second_request h)" by (simp add: second_request_def)
  with Inr o have "answered w out h'"
    unfolding answered_def by (metis (no_types))
  then show ?thesis by blast
qed

lemma structured_form:
  assumes "structured_branch w h rm = (out, h')"
  shows "(\<exists>e. out = Raised e) \<or> (\<exists>h2. list_ex (\<lambda>ap. second_call w h2 ap = (out, h')) apologies)"
proof (cases "process_tool_calls w (resp_tool_calls rm) (h @ [response_message rm])")
  case (Pair r h2)
  show ?thesis
  proof (cases r)
    case None
    with Pair assms have "second_call w h2 ''I encountered an error processing the search results. Please try again.'' = (out, h')"
      by (simp add: structured_branch_def)
    then have "list_ex (\<lambda>ap. second_call w h2 ap = (out, h')) apologies"
      by (simp add: apologies_def)
    then show ?thesis by blast
  next
    case (Some e)
    with Pair assms show ?thesis by (auto simp: structured_branch_def)
  qed
qed

lemma text_detected_form:
  assumes "text_detected_branch w h tn args = (out, h')"
  shows "(\<exists>e. out = Raised e) \<or> (\<exists>h2. list_ex (\<lambda>ap. second_call w h2 ap = (out, h')) apologies)"
proof -
  have "(\<exists>e. out = Raised e) \<or>
        (\<exists>h2. second_call w h2 ''I encountered an error processing the results. Please try again.'' = (out, h'))"
    using assms
    by (auto simp: text_detected_branch_def Let_def simp del: json_dumps.simps
             split: if_splits option.splits sum.splits)
  then show ?thesis by (auto simp: apologies_def)
qed

lemma fallback_form:
  assumes "fallback_branch w p st h c = (out, h')"
  shows "(out = Returned (Some c) \<and>
          h' = h @ [\<lparr>role = ''assistant'', content = Some c, tool_calls = [],
                     tool_call_id = None, name = None\<rparr>]) \<or>
         (\<exists>h2. list_ex (\<lambda>ap. second_call w h2 ap = (out, h')) apologies)"
proof -
  have "direct_answer h c = (out, h') \<or>
        (\<exists>h2. second_call w h2 ''I encountered an error processing the results. Please try again.'' = (out, h'))"
    using assms by (auto simp: fallback_branch_def Let_def split: if_splits)
  then show ?thesis by (auto simp: apologies_def direct_answer_def dict_message_def)
qed

lemma unstructured_form:
  assumes "unstructured_branch w p st h rm = (out, h')"
  shows "(\<exists>e. out = Raised e) \<or>
         (\<exists>c. resp_content rm = Some c \<and> out = Returned (Some c) \<and>
              h' = h @ [\<lparr>role = ''assistant'', content = Some c, tool_calls = [],
                         tool_call_id = None, name = None\<rparr>]) \<or>
         (\<exists>h2. list_ex (\<lambda>ap. second_call w h2 ap = (out, h')) apologies)"
proof -
  have "(\<exists>e. out = Raised e) \<or>
        (\<exists>tn args. text_detected_branch w h tn args = (out, h')) \<or>
        (\<exists>c. resp_content rm = Some c \<and> fallback_branch w p st h c = (out, h'))"
    using assms
    by (auto simp: unstructured_branch_def split: option.splits sum.splits if_splits)
  with text_detected_form fallback_form show ?thesis by blast
qed

lemma opening_history_raw:
  "opening_history hist p =
     (case hist of None \<Rightarrow> default_history | Some h0 \<Rightarrow> h0) @
     [\<lparr>role = ''user'', content = Some p, tool_calls = [], tool_call_id = None, name = None\<rparr>]"
  by (simp add: opening_history_def dict_message_def)

lemma first_call_failure:
  "client w (first_request (route_query w p) (opening_history hist p)) = Inl e \<Longrightarrow>
   run_conversation w p hist =
     (Returned (Some ''I encountered an error processing your request. Please try again.''),
      opening_history hist p)"
  by (simp add: run_conversation_def Let_def)

lemma run_conversation_form:
  assumes "run_conversation w p hist = (out, h')"
  shows "(\<exists>e. out = Raised e) \<or>
         (\<exists>e. client w (first_request (route_query w p) (opening_history hist p)) = Inl e) \<or>
         (\<exists>rm c. client w (first_request (route_query w p) (opening_history hist p)) = Inr rm \<and>
              resp_content rm = Some c \<and> out = Returned (Some c) \<and>
              h' = opening_history hist p @
                   [\<lparr>role = ''assistant'', content = Some c, tool_calls = [],
                     tool_call_id = None, name = None\<rparr>]) \<or>
         (\<exists>h2. list_ex (\<lambda>ap. second_call w h2 ap = (out, h')) apologies)"
proof (cases "client w (first_request (route_query w p) (opening_history hist p))")
  case (Inl e)
  then show ?thesis by blast
next
  case (Inr rm)
  with assms have "structured_branch w (opening_history hist p) rm = (out, h') \<or>
      unstructured_branch w p (route_query w p) (opening_history hist p) rm = (out, h')"
    by (auto simp: run_conversation_def Let_def split: if_splits)
  with structured_form [of w "opening_history hist p" rm out h']
    unstructured_form [of w p "route_query w p" "opening_history hist p" rm out h'] Inr
  show ?thesis by blast
qed

lemma run_conversation_shape:
  assumes "run_conversation w p hist = (out, h')"
  shows "answered w out h' \<or> apologised w out h' \<or> (\<exists>e. out = Raised e)"
proof -
  let ?req = "first_request (route_query w p) (opening_history hist p)"
  have msgs: "opening_history hist p = req_messages ?req" by (simp add: first_request_def)
  from run_conversation_form [OF assms]
  consider (raised) e where "out = Raised e"
    | (failed) e where "client w ?req = Inl e"
    | (direct) rm c where "client w ?req = Inr rm" "resp_content rm = Some c"
        "out = Returned (Some c)"
        "h' = opening_history hist p @
              [\<lparr>role = ''assistant'', content = Some c, tool_calls = [],
                tool_call_id = None, name = None\<rparr>]"
    | (second) h2 where "list_ex (\<lambda>ap. second_call w h2 ap = (out, h')) apologies"
    by blast
  then show ?thesis
  proof cases
    case raised
    then show ?thesis by blast
  next
    case failed
    with assms have o: "out = Returned (Some ''I encountered an error processing your request. Please try again.'')"
      "h' = opening_history hist p"
      by (simp_all add: first_call_failure)
    from failed msgs have "\<exists>req e. client w req = Inl e \<and> opening_history hist p = req_messages req"
      by blast
    with o show ?thesis by (simp add: apologised_def apologies_def)
  next
    case direct
    then have "client w ?req = Inr rm \<and> out = Returned (resp_content rm) \<and>
       h' = req_messages ?req @
            [\<lparr>role = ''assistant'', content = resp_content rm, tool_calls = [],
              tool_call_id = None, name = None\<rparr>]"
      using msgs by simp
    then have "answered w out h'" unfolding answered_def by blast
    then show ?thesis by blast
  next
    case second
    then obtain ap where "ap \<in> set apologies" "second_call w h2 ap = (out, h')"
      by (auto simp: list_ex_iff)
    with second_call_shape show ?thesis by blast
  qed
qed

text \<open>
  Claim C1, as amended. A turn that returns has either answered: a completion call
  returned, and the history is the messages of that call with the answer appended as an
  assistant message; or apologised: it returned one of the three fixed apologies without
  appending it, and the history is exactly the messages of a completion call that raised.
  When the first call raises, the history comes back ending with the user's message. The
  second call, on every branch that makes one, returns the apology and the history
  unchanged when it raises, and appends the answer when it returns; and a turn that returns
  is a failed first call, a direct answer, or such a second call. When no completion call
  raises, a turn that returns ends with the assistant message of its answer. (A turn can
  also raise, on arguments that do not decode or a content that is \<^verbatim>\<open>None\<close>.)
\<close>

theorem turn_answers_or_apologises:
  "(\<forall>out h'. run_conversation w p hist = (out, h') \<longrightarrow>
      answered w out h' \<or> apologised w out h' \<or> (\<exists>e. out = Raised e)) \<and>
   (\<forall>e. client w (first_request (route_query w p) (opening_history hist p)) = Inl e \<longrightarrow>
      run_conversation w p hist =
        (Returned (Some ''I encountered an error processing your request. Please try again.''),
         (case hist of None \<Rightarrow> default_history | Some h0 \<Rightarrow> h0) @
         [\<lparr>role = ''user'', content = Some p, tool_calls = [], tool_call_id = None,
           name = None\<rparr>])) \<and>
   (\<forall>h ap. second_call w h ap =
      (case client w \<lparr>req_model = ''llama-3.3-70b-versatile'', req_messages = h,
                       req_tools = None, req_tool_choice = None\<rparr> of
         Inl e \<Rightarrow> (Returned (Some ap), h)
       | Inr r \<Rightarrow>
           (Returned (resp_content r),
            h @ [\<lparr>role = ''assistant'', content = resp_content r, tool_calls = [],
                  tool_call_id = None, name = None\<rparr>]))) \<and>
   (\<forall>out h'. run_conversation w p hist = (out, h') \<longrightarrow>
      (\<exists>e. out = Raised e) \<or>
      (\<exists>e. client w (first_request (route_query w p) (opening_history hist p)) = Inl e) \<or>
      (\<exists>rm c. client w (first_request (route_query w p) (opening_history hist p)) = Inr rm \<and>
           resp_content rm = Some c \<and> out = Returned (Some c) \<and>
           h' = (case hist of None \<Rightarrow> default_history | Some h0 \<Rightarrow> h0) @
                [\<lparr>role = ''user'', content = Some p, tool_calls = [], tool_call_id = None,
                  name = None\<rparr>,
                 \<lparr>role = ''assistant'', content = Some c, tool_calls = [],
                  tool_call_id = None, name = None\<rparr>]) \<or>
      (\<exists>h2. list_ex (\<lambda>ap. second_call w h2 ap = (out, h')) apologies)) \<and>
   (\<forall>a h'. (\<forall>req e. client w req \<noteq> Inl e) \<and> run_conversation w p hist = (Returned a, h') \<longrightarrow>
      h' \<noteq> [] \<and>
      last h' = \<lparr>role = ''assistant'', content = a, tool_calls = [], tool_call_id = None,
                 name = None\<rparr>)"
proof (intro conjI allI impI)
  fix out h'
  assume "run_conversation w p hist = (out, h')"
  then show "answered w out h' \<or> apologised w out h' \<or> (\<exists>e. out = Raised e)"
    by (rule run_conversation_shape)
next
  fix e
  assume "client w (first_request (route_query w p) (opening_history hist p)) = Inl e"
  then show "run_conversation w p hist =
        (Returned (Some ''I encountered an error processing your request. Please try again.''),
         (case hist of None \<Rightarrow> default_history | Some h0 \<Rightarrow> h0) @
         [\<lparr>role = ''user'', content = Some p, tool_calls = [], tool_call_id = None,
           name = None\<rparr>])"
    using first_call_failure [of w p hist e] by (simp add: opening_history_raw)
next
  fix h ap
  show "second_call w h ap =
      (case client w \<lparr>req_model = ''llama-3.3-70b-versatile'', req_messages = h,
                       req_tools = None, req_tool_choice = None\<rparr> of
         Inl e \<Rightarrow> (Returned (Some ap), h)
       | Inr r \<Rightarrow>
           (Returned (resp_content r),
            h @ [\<lparr>role = ''assistant'', content = resp_content r, tool_calls = [],
                  tool_call_id = None, name = None\<rparr>]))"
    by (rule second_call_raw)
next
  fix out h'
  assume "run_conversation w p hist = (out, h')"
  from run_conversation_form [OF this]
  show "(\<exists>e. out = Raised e) \<or>
      (\<exists>e. client w (first_request (route_query w p) (opening_history hist p)) = Inl e) \<or>
      (\<exists>rm c. client w (first_request (route_query w p) (opening_history hist p)) = Inr rm \<and>
           resp_content rm = Some c \<and> out = Returned (Some c) \<and>
           h' = (case hist of None \<Rightarrow> default_history | Some h0 \<Rightarrow> h0) @
                [\<lparr>role = ''user'', content = Some p, tool_calls = [], tool_call_id = None,
                  name = None\<rparr>,
                 \<lparr>role = ''assistant'', content = Some c, tool_calls = [],
                  tool_call_id = None, name = None\<rparr>]) \<or>
      (\<exists>h2. list_ex (\<lambda>ap. second_call w h2 ap = (out, h')) apologies)"
    by (simp add: opening_history_raw)
next
  fix a h'
  assume h: "(\<forall>req e. client w req \<noteq> Inl e) \<and> run_conversation w p hist = (Returned a, h')"
  then have "answered w (Returned a) h' \<or> apologised w (Returned a) h'"
    using run_conversation_shape [of w p hist "Returned a" h'] by blast
  moreover have "\<not> apologised w (Returned a) h'"
    using h by (simp add: apologised_def)
  ultimately have ans: "answered w (Returned a) h'" by blast
  then show "h' \<noteq> []" by (auto simp: answered_def)
  from ans show "last h' = \<lparr>role = ''assistant'', content = a, tool_calls = [],
      tool_call_id = None, name = None\<rparr>"
    by (auto simp: answered_def)
qed

lemma example_direct_answer:
  "run_conversation (scripted (answer ''NO TOOL'') (answer ''Hello'') (answer ''Bye'')) ''hi'' (Some []) =
     (Returned (Some ''Hello''),
      [\<lparr>role = ''user'', content = Some ''hi'', tool_calls = [], tool_call_id = None, name = None\<rparr>,
       \<lparr>role = ''assistant'', content = Some ''Hello'', tool_calls = [], tool_call_id = None,
        name = None\<rparr>])"
  by code_simp

lemma example_first_call_fails:
  "run_conversation (scripted failure failure failure) ''hi'' (Some []) =
     (Returned (Some ''I encountered an error processing your request. Please try again.''),
      [\<lparr>role = ''user'', content = Some ''hi'', tool_calls = [], tool_call_id = None, name = None\<rparr>])"
  by code_simp

lemma example_second_call_fails:
  \<open>run_conversation (scripted (answer ''TOOL: WEB_SEARCH'') (answer ''ok'') failure) ''q'' (Some []) =
     (Returned (Some ''I encountered an error processing the results. Please try again.''),
      [\<lparr>role = ''user'', content = Some ''q'', tool_calls = [], tool_call_id = None, name = None\<rparr>,
       \<lparr>role = ''assistant'', content = None,
        tool_calls = [\<lparr>tc_id = ''forced_web_search_call'', tc_type = ''function'',
                       tc_name = ''web_search'', tc_arguments = ''{"query": "q"}''\<rparr>],
        tool_call_id = None, name = None\<rparr>,
       \<lparr>role = ''tool'', content = Some ''No results found'', tool_calls = [],
        tool_call_id = Some ''forced_web_search_call'', name = Some ''web_search''\<rparr>])\<close>
  by code_simp

theorem turn_answers_or_apologises_witness:
  \<open>run_conversation (scripted (answer ''NO TOOL'') (answer ''Hello'') (answer ''Bye'')) ''hi'' (Some []) =
     (Returned (Some ''Hello''),
      [\<lparr>role = ''user'', content = Some ''hi'', tool_calls = [], tool_call_id = None, name = None\<rparr>,
       \<lparr>role = ''assistant'', content = Some ''Hello'', tool_calls = [], tool_call_id = None,
        name = None\<rparr>]) \<and>
   client (scripted failure failure failure)
     (first_request (route_query (scripted failure failure failure) ''hi'') (opening_history (Some []) ''hi'')) =
     Inl (Exn ''Connection error.'') \<and>
   run_conversation (scripted failure failure failure) ''hi'' (Some []) =
     (Returned (Some ''I encountered an error processing your request. Please try again.''),
      [\<lparr>role = ''user'', content = Some ''hi'', tool_calls = [], tool_call_id = None, name = None\<rparr>]) \<and>
   run_conversation (scripted (answer ''TOOL: WEB_SEARCH'') (answer ''ok'') failure) ''q'' (Some []) =
     (Returned (Some ''I encountered an error processing the results. Please try again.''),
      [\<lparr>role = ''user'', content = Some ''q'', tool_calls = [], tool_call_id = None, name = None\<rparr>,
       \<lparr>role = ''assistant'', content = None,
        tool_calls = [\<lparr>tc_id = ''forced_web_search_call'', tc_type = ''function'',
                       tc_name = ''web_search'', tc_arguments = ''{"query": "q"}''\<rparr>],
        tool_call_id = None, name = None\<rparr>,
       \<lparr>role = ''tool'', content = Some ''No results found'', tool_calls = [],
        tool_call_id = Some ''forced_web_search_call'', name = Some ''web_search''\<rparr>])\<close>
proof -
  have f: "client (scripted failure failure failure)
     (first_request (route_query (scripted failure failure failure) ''hi'') (opening_history (Some []) ''hi'')) =
     Inl (Exn ''Connection error.'')"
    by (simp add: scripted_def first_request_def failure_def select_model_def GENERAL_MODEL_def
          MODEL_def ROUTING_MODEL_def)
  from turn_answers_or_apologises [of "scripted failure failure failure" "''hi''" "Some []"] f
  have "run_conversation (scripted failure failure failure) ''hi'' (Some []) =
     (Returned (Some ''I encountered an error processing your request. Please try again.''),
      (case Some [] of None \<Rightarrow> default_history | Some h0 \<Rightarrow> h0) @
      [\<lparr>role = ''user'', content = Some ''hi'', tool_calls = [], tool_call_id = None, name = None\<rparr>])"
    by blast
  then have r: "run_conversation (scripted failure failure failure) ''hi'' (Some []) =
     (Returned (Some ''I encountered an error processing your request. Please try again.''),
      [\<lparr>role = ''user'', content = Some ''hi'', tool_calls = [], tool_call_id = None, name = None\<rparr>])"
    by simp
  from f r example_direct_answer example_second_call_fails show ?thesis by blast
qed

text \<open>
  Claim C1 as the specification states it fails on the caught-failure branch of the first
  call: the returned history ends with the user's message, not with an assistant message.
\<close>

theorem failed_turn_ends_on_user_counterexample:
  "run_conversation (scripted failure failure failure) ''hi'' (Some []) =
     (Returned (Some ''I encountered an error processing your request. Please try again.''),
      [\<lparr>role = ''user'', content = Some ''hi'', tool_calls = [], tool_call_id = None, name = None\<rparr>]) \<and>
   role (last (snd (run_conversation (scripted failure failure failure) ''hi'' (Some [])))) = ''user''"
  by (simp add: example_first_call_fails)

text \<open>
  Claim C8, as amended. The model of the first call is chosen by whether the router
  suggested a tool: \<open>GENERAL_MODEL\<close> when it suggested none, \<open>MODEL\<close> otherwise. Both
  constants name the same model, so the two branches call the same model.
\<close>

theorem first_call_model:
  "req_model (first_request suggested_tools h) =
     (if suggested_tools = [] then GENERAL_MODEL else MODEL) \<and>
   GENERAL_MODEL = ''llama-3.3-70b-versatile'' \<and> MODEL = ''llama-3.3-70b-versatile''"
  by (simp add: first_request_def select_model_def GENERAL_MODEL_def MODEL_def)

theorem first_call_model_witness:
  "req_model (first_request [] []) = ''llama-3.3-70b-versatile'' \<and>
   req_model (first_request [''web_search''] []) = ''llama-3.3-70b-versatile''"
  using first_call_model [of "[]" "[]"] first_call_model [of "[''web_search'']" "[]"] by simp

text \<open>
  Claim C8 as the specification states it fails: with no suggested tool and with a suggested
  tool the first call goes to the same model, not to two distinct tiers.
\<close>

theorem same_model_counterexample:
  "req_model (first_request [] []) = req_model (first_request [''web_search''] [])"
  by (simp add: first_request_def select_model_def GENERAL_MODEL_def MODEL_def)

subsection \<open>Reading an encoded argument back\<close>

lemma unhex_hex_digit: "k < 16 \<Longrightarrow> unhex (hex_digit k) = Some k"
  by (auto simp: unhex_def hex_digit_def Let_def)

lemma json_unescape_escape:
  "json_unescape (json_escape_char c @ rest) = map_option ((#) c) (json_unescape rest)"
proof -
  define n :: nat where "n = of_char c"
  have c: "c = char_of n" by (simp add: n_def)
  have lt: "n < 256" by (simp add: n_def)
  have d: "n div 16 < 16" using lt by simp
  have m: "n mod 16 < 16" by simp
  have z: "unhex CHR ''0'' = Some 0" by (simp add: unhex_def)
  consider "n = 34" | "n = 92" | "n = 10" | "n = 13" | "n = 9" | "n = 8" | "n = 12"
    | "n \<notin> {34, 92, 10, 13, 9, 8, 12}" "n < 32 \<or> 126 < n"
    | "n \<notin> {34, 92, 10, 13, 9, 8, 12}" "\<not> (n < 32 \<or> 126 < n)"
    by blast
  then show ?thesis
  proof cases
    case 8
    then have e: "json_escape_char c =
        [CHR 0x5C, CHR ''u'', CHR ''0'', CHR ''0'', hex_digit (n div 16), hex_digit (n mod 16)]"
      by (auto simp: json_escape_char_def Let_def n_def)
    show ?thesis
      unfolding e using lt
      by (simp add: z unhex_hex_digit [OF d] unhex_hex_digit [OF m] c)
  next
    case 9
    then have e: "json_escape_char c = [c]"
      by (auto simp: json_escape_char_def Let_def n_def)
    show ?thesis unfolding e using 9 by (simp add: n_def)
  qed (simp_all add: json_escape_char_def Let_def n_def [symmetric] simple_escape_def c)
qed

lemma json_unescape_concat:
  "json_unescape (concat (map json_escape_char s)) = Some s"
  by (induction s) (simp_all add: json_unescape_escape)

lemma json_quote_roundtrip: "json_string_value (json_quote s) = Some s"
  by (simp add: json_string_value_def json_quote_def json_unescape_concat butlast_append)

subsection \<open>The forced fallback\<close>

lemma quoted_query: \<open>json_quote ''query'' = ''"query"''\<close>
  by code_simp

lemma quoted_error: \<open>json_quote ''error'' = ''"error"''\<close>
  by code_simp

lemma dumps_str_query: \<open>dumps_str ''query'' s = ''{"query": '' @ json_quote s @ ''}''\<close>
  by (simp add: dumps_str_def quoted_query)

lemma dumps_str_error: \<open>dumps_str ''error'' s = ''{"error": '' @ json_quote s @ ''}''\<close>
  by (simp add: dumps_str_def quoted_error)

lemma fallback_reached:
  assumes "client w (first_request (route_query w p) (opening_history hist p)) = Inr rm"
    "resp_tool_calls rm = []" "resp_content rm = Some c"
    "detect_tool_call c = Inr d" "tool_name d = None"
  shows "run_conversation w p hist =
           fallback_branch w p (route_query w p) (opening_history hist p) c"
  using assms by (simp add: run_conversation_def Let_def unstructured_branch_def)

lemma forced_web_search:
  assumes "st \<noteq> []" "st ! 0 = ''web_search''"
  shows \<open>fallback_branch w p st h c =
     (let forced = h @
        [\<lparr>role = ''assistant'', content = None,
          tool_calls = [\<lparr>tc_id = ''forced_web_search_call'', tc_type = ''function'',
                         tc_name = ''web_search'',
                         tc_arguments = ''{"query": '' @ json_quote p @ ''}''\<rparr>],
          tool_call_id = None, name = None\<rparr>,
         \<lparr>role = ''tool'',
          content = Some (case web_search w (PStr p) of
                            Inr r \<Rightarrow> r
                          | Inl e \<Rightarrow> ''{"error": '' @ json_quote (''Search failed: '' @ exn_str e) @ ''}''),
          tool_calls = [], tool_call_id = Some ''forced_web_search_call'',
          name = Some ''web_search''\<rparr>]
      in case client w \<lparr>req_model = ''llama-3.3-70b-versatile'', req_messages = forced,
                         req_tools = None, req_tool_choice = None\<rparr> of
           Inl e \<Rightarrow>
             (Returned (Some ''I encountered an error processing the results. Please try again.''),
              forced)
         | Inr r \<Rightarrow>
             (Returned (resp_content r),
              forced @ [\<lparr>role = ''assistant'', content = resp_content r, tool_calls = [],
                         tool_call_id = None, name = None\<rparr>]))\<close>
proof -
  have "get_tool_function ''web_search'' = Some WebSearchTool"
    by (simp add: get_tool_function_def load_tools_def register_tool_def)
  then show ?thesis
    using assms
    by (cases "web_search w (PStr p)")
       (simp_all add: fallback_branch_def Let_def call_with_query_def second_call_def
          second_request_def MODEL_def dict_message_def tool_call_message_def tool_message_def
          dumps_str_query dumps_str_error
        split: sum.splits)
qed

lemma no_forced_calculate:
  "fallback_branch w p [''calculate''] h c =
     (Returned (Some c),
      h @ [\<lparr>role = ''assistant'', content = Some c, tool_calls = [], tool_call_id = None,
            name = None\<rparr>])"
  by (simp add: fallback_branch_def Let_def direct_answer_def dict_message_def)

lemma opening_history_is:
  "opening_history hist p =
     (case hist of None \<Rightarrow> default_history | Some h0 \<Rightarrow> h0) @
     [\<lparr>role = ''user'', content = Some p, tool_calls = [], tool_call_id = None, name = None\<rparr>]"
  by (simp add: opening_history_def dict_message_def)

text \<open>
  Claim C3, as amended. Let the first response carry no structured tool call and a text
  content in which the detector finds no tool call. If the router suggested only
  \<open>web_search\<close>, the turn appends an assistant message with one tool call, of id
  \<open>forced_web_search_call\<close> and name \<open>web_search\<close>, whose arguments are the JSON object
  with the user's prompt as the query (the encoded query reads back as the prompt), then a
  tool message with the result of searching for the prompt (or the error text if the search
  raises), and makes the second call over that history. If the router suggested only
  \<open>calculate\<close>, no call is synthesised: the content of the first response is appended and
  returned unchanged.
\<close>

theorem forced_fallback_policy:
  \<open>client w (first_request (route_query w p) (opening_history hist p)) = Inr rm \<and>
   resp_tool_calls rm = [] \<and> resp_content rm = Some c \<and>
   detect_tool_call c = Inr d \<and> tool_name d = None \<longrightarrow>
   (route_query w p = [''web_search''] \<longrightarrow>
      run_conversation w p hist =
        (let forced = (case hist of None \<Rightarrow> default_history | Some h0 \<Rightarrow> h0) @
           [\<lparr>role = ''user'', content = Some p, tool_calls = [], tool_call_id = None,
             name = None\<rparr>,
            \<lparr>role = ''assistant'', content = None,
             tool_calls = [\<lparr>tc_id = ''forced_web_search_call'', tc_type = ''function'',
                            tc_name = ''web_search'',
                            tc_arguments = ''{"query": '' @ json_quote p @ ''}''\<rparr>],
             tool_call_id = None, name = None\<rparr>,
            \<lparr>role = ''tool'',
             content = Some (case web_search w (PStr p) of
                               Inr r \<Rightarrow> r
                             | Inl e \<Rightarrow> ''{"error": '' @ json_quote (''Search failed: '' @ exn_str e) @ ''}''),
             tool_calls = [], tool_call_id = Some ''forced_web_search_call'',
             name = Some ''web_search''\<rparr>]
         in case client w \<lparr>req_model = ''llama-3.3-70b-versatile'', req_messages = forced,
                            req_tools = None, req_tool_choice = None\<rparr> of
              Inl e \<Rightarrow>
                (Returned (Some ''I encountered an error processing the results. Please try again.''),
                 forced)
            | Inr r \<Rightarrow>
                (Returned (resp_content r),
                 forced @ [\<lparr>role = ''assistant'', content = resp_content r, tool_calls = [],
                            tool_call_id = None, name = None\<rparr>])) \<and>
      json_string_value (json_quote p) = Some p) \<and>
   (route_query w p = [''calculate''] \<longrightarrow>
      run_conversation w p hist =
        (Returned (Some c),
         (case hist of None \<Rightarrow> default_history | Some h0 \<Rightarrow> h0) @
         [\<lparr>role = ''user'', content = Some p, tool_calls = [], tool_call_id = None,
           name = None\<rparr>,
          \<lparr>role = ''assistant'', content = Some c, tool_calls = [], tool_call_id = None,
           name = None\<rparr>]))\<close>
proof (intro impI conjI)
  assume h: "client w (first_request (route_query w p) (opening_history hist p)) = Inr rm \<and>
   resp_tool_calls rm = [] \<and> resp_content rm = Some c \<and>
   detect_tool_call c = Inr d \<and> tool_name d = None"
  then have fb: "run_conversation w p hist =
           fallback_branch w p (route_query w p) (opening_history hist p) c"
    using fallback_reached [of w p hist rm c d] by blast
  show "json_string_value (json_quote p) = Some p" by (rule json_quote_roundtrip)
  {
    assume "route_query w p = [''web_search'']"
    then show \<open>run_conversation w p hist =
        (let forced = (case hist of None \<Rightarrow> default_history | Some h0 \<Rightarrow> h0) @
           [\<lparr>role = ''user'', content = Some p, tool_calls = [], tool_call_id = None,
             name = None\<rparr>,
            \<lparr>role = ''assistant'', content = None,
             tool_calls = [\<lparr>tc_id = ''forced_web_search_call'', tc_type = ''function'',
                            tc_name = ''web_search'',
                            tc_arguments = ''{"query": '' @ json_quote p @ ''}''\<rparr>],
             tool_call_id = None, name = None\<rparr>,
            \<lparr>role = ''tool'',
             content = Some (case web_search w (PStr p) of
                               Inr r \<Rightarrow> r
                             | Inl e \<Rightarrow> ''{"error": '' @ json_quote (''Search failed: '' @ exn_str e) @ ''}''),
             tool_calls = [], tool_call_id = Some ''forced_web_search_call'',
             name = Some ''web_search''\<rparr>]
         in case client w \<lparr>req_model = ''llama-3.3-70b-versatile'', req_messages = forced,
                            req_tools = None, req_tool_choice = None\<rparr> of
              Inl e \<Rightarrow>
                (Returned (Some ''I encountered an error processing the results. Please try again.''),
                 forced)
            | Inr r \<Rightarrow>
                (Returned (resp_content r),
                 forced @ [\<lparr>role = ''assistant'', content = resp_content r, tool_calls = [],
                            tool_call_id = None, name = None\<rparr>]))\<close>
      using fb forced_web_search [of "[''web_search'']" w p "opening_history hist p" c]
      by (simp add: opening_history_is)
  }
  {
    assume "route_query w p = [''calculate'']"
    then show "run_conversation w p hist =
        (Returned (Some c),
         (case hist of None \<Rightarrow> default_history | Some h0 \<Rightarrow> h0) @
         [\<lparr>role = ''user'', content = Some p, tool_calls = [], tool_call_id = None,
           name = None\<rparr>,
          \<lparr>role = ''assistant'', content = Some c, tool_calls = [], tool_call_id = None,
           name = None\<rparr>])"
      using fb no_forced_calculate by (simp add: opening_history_is)
  }
qed

lemma example_route_web_search:
  "route_query (scripted (answer ''TOOL: WEB_SEARCH'') first second) ''q'' = [''web_search'']"
  by code_simp

lemma example_route_calculate:
  "route_query (scripted (answer ''TOOL: CALCULATE'') first second) ''q'' = [''calculate'']"
  by code_simp

lemma example_route_both:
  "route_query (scripted (answer ''TOOL: WEB_SEARCH, CALCULATE'') first second) ''q'' =
     [''web_search'', ''calculate'']"
  by code_simp

lemma example_first_call:
  "client (scripted routing first second) (first_request st h) = first"
  by (simp add: scripted_def first_request_def select_model_def GENERAL_MODEL_def
        MODEL_def ROUTING_MODEL_def)

lemma example_second_request:
  "client (scripted routing first second)
     \<lparr>req_model = ''llama-3.3-70b-versatile'', req_messages = h, req_tools = None,
      req_tool_choice = None\<rparr> = second"
  by (simp add: scripted_def ROUTING_MODEL_def)

lemma example_no_detection:
  "detect_tool_call ''ok'' = Inr \<lparr>tool_name = None, arguments = None, original_text = None\<rparr>"
  by code_simp

lemma example_web_search: "web_search (scripted routing first second) q = Inr ''No results found''"
  by (simp add: scripted_def)

lemma example_quoted_q: \<open>json_quote ''q'' = ''"q"''\<close>
  by code_simp

theorem forced_fallback_policy_witness:
  \<open>route_query (scripted (answer ''TOOL: WEB_SEARCH'') (answer ''ok'') (answer ''done'')) ''q'' = [''web_search''] \<and>
   detect_tool_call ''ok'' = Inr \<lparr>tool_name = None, arguments = None, original_text = None\<rparr> \<and>
   run_conversation (scripted (answer ''TOOL: WEB_SEARCH'') (answer ''ok'') (answer ''done'')) ''q'' (Some []) =
     (Returned (Some ''done''),
      [\<lparr>role = ''user'', content = Some ''q'', tool_calls = [], tool_call_id = None, name = None\<rparr>,
       \<lparr>role = ''assistant'', content = None,
        tool_calls = [\<lparr>tc_id = ''forced_web_search_call'', tc_type = ''function'',
                       tc_name = ''web_search'', tc_arguments = ''{"query": "q"}''\<rparr>],
        tool_call_id = None, name = None\<rparr>,
       \<lparr>role = ''tool'', content = Some ''No results found'', tool_calls = [],
        tool_call_id = Some ''forced_web_search_call'', name = Some ''web_search''\<rparr>,
       \<lparr>role = ''assistant'', content = Some ''done'', tool_calls = [], tool_call_id = None,
        name = None\<rparr>]) \<and>
   json_string_value ''"q"'' = Some ''q'' \<and>
   route_query (scripted (answer ''TOOL: CALCULATE'') (answer ''ok'') failure) ''q'' = [''calculate''] \<and>
   run_conversation (scripted (answer ''TOOL: CALCULATE'') (answer ''ok'') failure) ''q'' (Some []) =
     (Returned (Some ''ok''),
      [\<lparr>role = ''user'', content = Some ''q'', tool_calls = [], tool_call_id = None, name = None\<rparr>,
       \<lparr>role = ''assistant'', content = Some ''ok'', tool_calls = [], tool_call_id = None,
        name = None\<rparr>])\<close>
proof -
  let ?w1 = "scripted (answer ''TOOL: WEB_SEARCH'') (answer ''ok'') (answer ''done'')"
  let ?w2 = "scripted (answer ''TOOL: CALCULATE'') (answer ''ok'') failure"
  let ?rm = "\<lparr>resp_content = Some ''ok'', resp_tool_calls = []\<rparr>"
  let ?d = "\<lparr>tool_name = None, arguments = None, original_text = None\<rparr>"
  have pre1: "client ?w1 (first_request (route_query ?w1 ''q'') (opening_history (Some []) ''q'')) = Inr ?rm \<and>
     resp_tool_calls ?rm = [] \<and> resp_content ?rm = Some ''ok'' \<and>
     detect_tool_call ''ok'' = Inr ?d \<and> tool_name ?d = None"
    by (simp add: example_first_call example_no_detection answer_def)
  have pre2: "client ?w2 (first_request (route_query ?w2 ''q'') (opening_history (Some []) ''q'')) = Inr ?rm \<and>
     resp_tool_calls ?rm = [] \<and> resp_content ?rm = Some ''ok'' \<and>
     detect_tool_call ''ok'' = Inr ?d \<and> tool_name ?d = None"
    by (simp add: example_first_call example_no_detection answer_def)
  note inst1 = forced_fallback_policy [of ?w1 "''q''" "Some []" ?rm "''ok''" ?d]
  note inst2 = forced_fallback_policy [of ?w2 "''q''" "Some []" ?rm "''ok''" ?d]
  from inst1 pre1 example_route_web_search
  have r1: \<open>run_conversation ?w1 ''q'' (Some []) =
     (Returned (Some ''done''),
      [\<lparr>role = ''user'', content = Some ''q'', tool_calls = [], tool_call_id = None, name = None\<rparr>,
       \<lparr>role = ''assistant'', content = None,
        tool_calls = [\<lparr>tc_id = ''forced_web_search_call'', tc_type = ''function'',
                       tc_name = ''web_search'', tc_arguments = ''{"query": "q"}''\<rparr>],
        tool_call_id = None, name = None\<rparr>,
       \<lparr>role = ''tool'', content = Some ''No results found'', tool_calls = [],
        tool_call_id = Some ''forced_web_search_call'', name = Some ''web_search''\<rparr>,
       \<lparr>role = ''assistant'', content = Some ''done'', tool_calls = [], tool_call_id = None,
        name = None\<rparr>])\<close>
    by (simp add: Let_def example_second_request example_web_search example_quoted_q answer_def)
  from inst1 pre1 example_route_web_search
  have q: \<open>json_string_value ''"q"'' = Some ''q''\<close>
    by (simp add: example_quoted_q)
  from inst2 pre2 example_route_calculate
  have r2: "run_conversation ?w2 ''q'' (Some []) =
     (Returned (Some ''ok''),
      [\<lparr>role = ''user'', content = Some ''q'', tool_calls = [], tool_call_id = None, name = None\<rparr>,
       \<lparr>role = ''assistant'', content = Some ''ok'', tool_calls = [], tool_call_id = None,
        name = None\<rparr>])"
    by simp
  from r1 q r2 example_route_web_search example_route_calculate example_no_detection
  show ?thesis by blast
qed

text \<open>
  Claim C3 as the specification states it fails when the first response has no tool call
  and no content at all: the detector is given \<^verbatim>\<open>None\<close> and raises, so the turn raises
  and nothing is forced.
\<close>

theorem no_content_raises_counterexample:
  "route_query (scripted (answer ''TOOL: WEB_SEARCH'')
      (Inr \<lparr>resp_content = None, resp_tool_calls = []\<rparr>) (answer ''done'')) ''q'' = [''web_search''] \<and>
   client (scripted (answer ''TOOL: WEB_SEARCH'')
      (Inr \<lparr>resp_content = None, resp_tool_calls = []\<rparr>) (answer ''done''))
     (first_request [''web_search''] (opening_history (Some []) ''q'')) =
     Inr \<lparr>resp_content = None, resp_tool_calls = []\<rparr> \<and>
   run_conversation (scripted (answer ''TOOL: WEB_SEARCH'')
      (Inr \<lparr>resp_content = None, resp_tool_calls = []\<rparr>) (answer ''done'')) ''q'' (Some []) =
     (Raised (Exn ''expected string or bytes-like object''),
      [\<lparr>role = ''user'', content = Some ''q'', tool_calls = [], tool_call_id = None, name = None\<rparr>])"
proof -
  have "run_conversation (scripted (answer ''TOOL: WEB_SEARCH'')
      (Inr \<lparr>resp_content = None, resp_tool_calls = []\<rparr>) (answer ''done'')) ''q'' (Some []) =
     (Raised (Exn ''expected string or bytes-like object''),
      [\<lparr>role = ''user'', content = Some ''q'', tool_calls = [], tool_call_id = None, name = None\<rparr>])"
    by code_simp
  then show ?thesis
    by (simp add: example_route_web_search example_first_call)
qed

lemma route_query_shape:
  "route_query w q \<in> {[], [''web_search''], [''calculate''], [''web_search'', ''calculate'']}"
  by (simp add: route_query_def Let_def split: sum.splits option.splits)

text \<open>
  Claim C9. \<open>route_query\<close> returns one of four lists, with \<open>web_search\<close> before
  \<open>calculate\<close>. So when both are suggested the first suggested tool is \<open>web_search\<close>,
  and a turn that reaches the forced fallback appends one synthetic tool call, whose name
  is \<open>web_search\<close> and whose query is the user's prompt, with its tool message of the same
  name; no \<open>calculate\<close> call is appended.
\<close>

theorem web_search_is_primary:
  \<open>route_query w p \<in> {[], [''web_search''], [''calculate''], [''web_search'', ''calculate'']} \<and>
   (''web_search'' \<in> set (route_query w p) \<and> ''calculate'' \<in> set (route_query w p) \<longrightarrow>
      route_query w p ! 0 = ''web_search'' \<and>
      (client w (first_request (route_query w p) (opening_history hist p)) = Inr rm \<and>
       resp_tool_calls rm = [] \<and> resp_content rm = Some c \<and>
       detect_tool_call c = Inr d \<and> tool_name d = None \<longrightarrow>
       run_conversation w p hist =
         (let forced = (case hist of None \<Rightarrow> default_history | Some h0 \<Rightarrow> h0) @
            [\<lparr>role = ''user'', content = Some p, tool_calls = [], tool_call_id = None,
              name = None\<rparr>,
             \<lparr>role = ''assistant'', content = None,
              tool_calls = [\<lparr>tc_id = ''forced_web_search_call'', tc_type = ''function'',
                             tc_name = ''web_search'',
                             tc_arguments = ''{"query": '' @ json_quote p @ ''}''\<rparr>],
              tool_call_id = None, name = None\<rparr>,
             \<lparr>role = ''tool'',
              content = Some (case web_search w (PStr p) of
                                Inr r \<Rightarrow> r
                              | Inl e \<Rightarrow> ''{"error": '' @ json_quote (''Search failed: '' @ exn_str e) @ ''}''),
              tool_calls = [], tool_call_id = Some ''forced_web_search_call'',
              name = Some ''web_search''\<rparr>]
          in case client w \<lparr>req_model = ''llama-3.3-70b-versatile'', req_messages = forced,
                             req_tools = None, req_tool_choice = None\<rparr> of
               Inl e \<Rightarrow>
                 (Returned (Some ''I encountered an error processing the results. Please try again.''),
                  forced)
             | Inr r \<Rightarrow>
                 (Returned (resp_content r),
                  forced @ [\<lparr>role = ''assistant'', content = resp_content r, tool_calls = [],
                             tool_call_id = None, name = None\<rparr>])) \<and>
       list_all (\<lambda>msg. list_all (\<lambda>tc. tc_name tc = ''web_search'')  (tool_calls msg))
         (drop (length (opening_history hist p)) (snd (run_conversation w p hist)))))\<close>
proof (intro conjI impI)
  show "route_query w p \<in> {[], [''web_search''], [''calculate''], [''web_search'', ''calculate'']}"
    by (rule route_query_shape)
next
  assume both: "''web_search'' \<in> set (route_query w p) \<and> ''calculate'' \<in> set (route_query w p)"
  with route_query_shape [of w p] have rq: "route_query w p = [''web_search'', ''calculate'']"
    by auto
  then show "route_query w p ! 0 = ''web_search''" by simp
  assume h: "client w (first_request (route_query w p) (opening_history hist p)) = Inr rm \<and>
       resp_tool_calls rm = [] \<and> resp_content rm = Some c \<and>
       detect_tool_call c = Inr d \<and> tool_name d = None"
  then have "run_conversation w p hist =
           fallback_branch w p (route_query w p) (opening_history hist p) c"
    using fallback_reached [of w p hist rm c d] by blast
  then have run: \<open>run_conversation w p hist =
         (let forced = (case hist of None \<Rightarrow> default_history | Some h0 \<Rightarrow> h0) @
            [\<lparr>role = ''user'', content = Some p, tool_calls = [], tool_call_id = None,
              name = None\<rparr>,
             \<lparr>role = ''assistant'', content = None,
              tool_calls = [\<lparr>tc_id = ''forced_web_search_call'', tc_type = ''function'',
                             tc_name = ''web_search'',
                             tc_arguments = ''{"query": '' @ json_quote p @ ''}''\<rparr>],
              tool_call_id = None, name = None\<rparr>,
             \<lparr>role = ''tool'',
              content = Some (case web_search w (PStr p) of
                                Inr r \<Rightarrow> r
                              | Inl e \<Rightarrow> ''{"error": '' @ json_quote (''Search failed: '' @ exn_str e) @ ''}''),
              tool_calls = [], tool_call_id = Some ''forced_web_search_call'',
              name = Some ''web_search''\<rparr>]
          in case client w \<lparr>req_model = ''llama-3.3-70b-versatile'', req_messages = forced,
                             req_tools = None, req_tool_choice = None\<rparr> of
               Inl e \<Rightarrow>
                 (Returned (Some ''I encountered an error processing the results. Please try again.''),
                  forced)
             | Inr r \<Rightarrow>
                 (Returned (resp_content r),
                  forced @ [\<lparr>role = ''assistant'', content = resp_content r, tool_calls = [],
                             tool_call_id = None, name = None\<rparr>]))\<close>
    using rq forced_web_search [of "[''web_search'', ''calculate'']" w p "opening_history hist p" c]
    by (simp add: opening_history_is)
  then show \<open>run_conversation w p hist =
         (let forced = (case hist of None \<Rightarrow> default_history | Some h0 \<Rightarrow> h0) @
            [\<lparr>role = ''user'', content = Some p, tool_calls = [], tool_call_id = None,
              name = None\<rparr>,
             \<lparr>role = ''assistant'', content = None,
              tool_calls = [\<lparr>tc_id = ''forced_web_search_call'', tc_type = ''function'',
                             tc_name = ''web_search'',
                             tc_arguments = ''{"query": '' @ json_quote p @ ''}''\<rparr>],
              tool_call_id = None, name = None\<rparr>,
             \<lparr>role = ''tool'',
              content = Some (case web_search w (PStr p) of
                                Inr r \<Rightarrow> r
                              | Inl e \<Rightarrow> ''{"error": '' @ json_quote (''Search failed: '' @ exn_str e) @ ''}''),
              tool_calls = [], tool_call_id = Some ''forced_web_search_call'',
              name = Some ''web_search''\<rparr>]
          in case client w \<lparr>req_model = ''llama-3.3-70b-versatile'', req_messages = forced,
                             req_tools = None, req_tool_choice = None\<rparr> of
               Inl e \<Rightarrow>
                 (Returned (Some ''I encountered an error processing the results. Please try again.''),
                  forced)
             | Inr r \<Rightarrow>
                 (Returned (resp_content r),
                  forced @ [\<lparr>role = ''assistant'', content = resp_content r, tool_calls = [],
                             tool_call_id = None, name = None\<rparr>]))\<close> .
  show "list_all (\<lambda>msg. list_all (\<lambda>tc. tc_name tc = ''web_search'') (tool_calls msg))
         (drop (length (opening_history hist p)) (snd (run_conversation w p hist)))"
    unfolding run
    by (simp add: Let_def opening_history_is split: sum.splits)
qed

theorem web_search_is_primary_witness:
  \<open>route_query (scripted (answer ''TOOL: WEB_SEARCH, CALCULATE'') (answer ''ok'') (answer ''done'')) ''q'' =
     [''web_search'', ''calculate''] \<and>
   run_conversation (scripted (answer ''TOOL: WEB_SEARCH, CALCULATE'') (answer ''ok'') (answer ''done'')) ''q'' (Some []) =
     (Returned (Some ''done''),
      [\<lparr>role = ''user'', content = Some ''q'', tool_calls = [], tool_call_id = None, name = None\<rparr>,
       \<lparr>role = ''assistant'', content = None,
        tool_calls = [\<lparr>tc_id = ''forced_web_search_call'', tc_type = ''function'',
                       tc_name = ''web_search'', tc_arguments = ''{"query": "q"}''\<rparr>],
        tool_call_id = None, name = None\<rparr>,
       \<lparr>role = ''tool'', content = Some ''No results found'', tool_calls = [],
        tool_call_id = Some ''forced_web_search_call'', name = Some ''web_search''\<rparr>,
       \<lparr>role = ''assistant'', content = Some ''done'', tool_calls = [], tool_call_id = None,
        name = None\<rparr>])\<close>
proof -
  let ?w = "scripted (answer ''TOOL: WEB_SEARCH, CALCULATE'') (answer ''ok'') (answer ''done'')"
  let ?rm = "\<lparr>resp_content = Some ''ok'', resp_tool_calls = []\<rparr>"
  let ?d = "\<lparr>tool_name = None, arguments = None, original_text = None\<rparr>"
  have both: "''web_search'' \<in> set (route_query ?w ''q'') \<and> ''calculate'' \<in> set (route_query ?w ''q'')"
    by (simp add: example_route_both)
  have pre: "client ?w (first_request (route_query ?w ''q'') (opening_history (Some []) ''q'')) = Inr ?rm \<and>
     resp_tool_calls ?rm = [] \<and> resp_content ?rm = Some ''ok'' \<and>
     detect_tool_call ''ok'' = Inr ?d \<and> tool_name ?d = None"
    by (simp add: example_first_call example_no_detection answer_def)
  from web_search_is_primary [of ?w "''q''" "Some []" ?rm "''ok''" ?d] both pre
  have \<open>run_conversation ?w ''q'' (Some []) =
     (Returned (Some ''done''),
      [\<lparr>role = ''user'', content = Some ''q'', tool_calls = [], tool_call_id = None, name = None\<rparr>,
       \<lparr>role = ''assistant'', content = None,
        tool_calls = [\<lparr>tc_id = ''forced_web_search_call'', tc_type = ''function'',
                       tc_name = ''web_search'', tc_arguments = ''{"query": "q"}''\<rparr>],
        tool_call_id = None, name = None\<rparr>,
       \<lparr>role = ''tool'', content = Some ''No results found'', tool_calls = [],
        tool_call_id = Some ''forced_web_search_call'', name = Some ''web_search''\<rparr>,
       \<lparr>role = ''assistant'', content = Some ''done'', tool_calls = [], tool_call_id = None,
        name = None\<rparr>])\<close>
    by (simp add: Let_def example_second_request example_web_search example_quoted_q answer_def)
  with example_route_both show ?thesis by blast
qed

subsection \<open>Tool call ids\<close>

lemma matches_append_old: "i < length h \<Longrightarrow> matches (h @ ms) i = matches h i"
  by (simp add: matches_def nth_append)

lemma matches_append_new:
  "matches (h @ [msg]) (length h) =
     length (filter (\<lambda>c. Some c = tool_call_id msg) (call_ids h))"
  by (simp add: matches_def)

lemma filter_nonempty: "(1 \<le> length (filter P xs)) = (\<exists>x\<in>set xs. P x)"
  by (induction xs) auto

lemma tool_ids_matched_snoc:
  "tool_ids_matched (h @ [msg]) =
     (tool_ids_matched h \<and>
      (role msg = ''tool'' \<longrightarrow> (\<exists>c\<in>set (call_ids h). Some c = tool_call_id msg)))"
proof -
  have old: "list_all (\<lambda>i. role ((h @ [msg]) ! i) = ''tool'' \<longrightarrow> Suc 0 \<le> matches (h @ [msg]) i) [0..<length h] =
             list_all (\<lambda>i. role (h ! i) = ''tool'' \<longrightarrow> Suc 0 \<le> matches h i) [0..<length h]"
    by (simp add: list_all_iff matches_append_old nth_append)
  have new: "(Suc 0 \<le> matches (h @ [msg]) (length h)) =
             (\<exists>c\<in>set (call_ids h). Some c = tool_call_id msg)"
    using filter_nonempty [of "\<lambda>c. Some c = tool_call_id msg" "call_ids h"]
    by (simp add: matches_append_new)
  show ?thesis
    unfolding tool_ids_matched_def by (simp add: old new)
qed

lemma call_ids_snoc:
  "call_ids (h @ [msg]) =
     call_ids h @ (if role msg = ''assistant'' then map tc_id (tool_calls msg) else [])"
  by (simp add: call_ids_def)

lemma matched_dict_message:
  "r \<noteq> ''tool'' \<Longrightarrow> tool_ids_matched (h @ [dict_message r c]) = tool_ids_matched h"
  by (simp add: tool_ids_matched_snoc dict_message_def)

lemma matched_synthetic_call:
  "tool_ids_matched h \<Longrightarrow>
   tool_ids_matched (h @ [tool_call_message cid fn args, tool_message cid fn res])"
proof -
  assume h: "tool_ids_matched h"
  have "h @ [tool_call_message cid fn args, tool_message cid fn res] =
        (h @ [tool_call_message cid fn args]) @ [tool_message cid fn res]" by simp
  then show ?thesis
    using h
    by (simp only: tool_ids_matched_snoc call_ids_snoc)
       (simp add: tool_call_message_def tool_message_def)
qed

lemma second_call_ids:
  "tool_ids_matched h \<Longrightarrow> tool_ids_matched (snd (second_call w h ap))"
  by (simp add: second_call_def Let_def matched_dict_message split: sum.splits)

lemma process_tool_calls_ids:
  "tool_ids_matched h \<Longrightarrow> tc_id ` set tcs \<subseteq> set (call_ids h) \<Longrightarrow>
   tool_ids_matched (snd (process_tool_calls w tcs h))"
proof (induction tcs arbitrary: h)
  case Nil
  then show ?case by simp
next
  case (Cons tc rest)
  have step: "tool_ids_matched (h @ [tool_message (tc_id tc) fn res])" for fn res
    using Cons.prems by (simp add: tool_ids_matched_snoc tool_message_def)
  have ids: "call_ids (h @ [tool_message (tc_id tc) fn res]) = call_ids h" for fn res
    by (simp add: call_ids_snoc tool_message_def)
  have rest: "tc_id ` set rest \<subseteq> set (call_ids h)" using Cons.prems by simp
  show ?case
    using Cons.IH [OF Cons.prems(1) rest] Cons.IH [OF step] rest Cons.prems(1)
    by (simp add: Let_def ids split: sum.splits)
qed

lemma structured_ids:
  assumes "tool_ids_matched h"
  shows "tool_ids_matched (snd (structured_branch w h rm))"
proof -
  let ?h = "h @ [response_message rm]"
  have a: "tool_ids_matched ?h"
    using assms by (simp add: tool_ids_matched_snoc response_message_def)
  have b: "tc_id ` set (resp_tool_calls rm) \<subseteq> set (call_ids ?h)"
    by (simp add: call_ids_snoc response_message_def)
  from process_tool_calls_ids [OF a b, of w]
  show ?thesis
    by (cases "process_tool_calls w (resp_tool_calls rm) ?h")
       (auto simp: structured_branch_def second_call_ids split: option.splits)
qed

lemma text_detected_ids:
  assumes "tool_ids_matched h"
  shows "tool_ids_matched (snd (text_detected_branch w h tn args))"
  using assms matched_synthetic_call [OF assms]
  by (auto simp: text_detected_branch_def Let_def second_call_ids simp del: json_dumps.simps
           split: option.splits sum.splits)

lemma fallback_ids:
  assumes "tool_ids_matched h"
  shows "tool_ids_matched (snd (fallback_branch w p st h c))"
  using assms matched_synthetic_call [OF assms]
  by (auto simp: fallback_branch_def Let_def second_call_ids direct_answer_def matched_dict_message)

lemma unstructured_ids:
  assumes "tool_ids_matched h"
  shows "tool_ids_matched (snd (unstructured_branch w p st h rm))"
  using assms text_detected_ids [OF assms] fallback_ids [OF assms]
  by (auto simp: unstructured_branch_def split: option.splits sum.splits)

lemma opening_ids:
  "tool_ids_matched (case hist of None \<Rightarrow> default_history | Some h0 \<Rightarrow> h0) \<Longrightarrow>
   tool_ids_matched (opening_history hist p)"
  by (simp add: opening_history_def matched_dict_message)

lemma default_history_ids: "tool_ids_matched default_history"
  by (simp add: tool_ids_matched_def default_history_def dict_message_def)

lemma run_conversation_ids:
  assumes "tool_ids_matched (case hist of None \<Rightarrow> default_history | Some h0 \<Rightarrow> h0)"
  shows "tool_ids_matched (snd (run_conversation w p hist))"
  using opening_ids [OF assms, of p] structured_ids unstructured_ids
  by (auto simp: run_conversation_def Let_def split: sum.splits)

text \<open>
  Claim C5, as amended. If every tool message of the incoming history has a tool call id
  that matches at least one tool call of a preceding assistant message (the default history
  has no tool message), then so has every tool message of the history after the turn,
  whatever the turn returns or raises, and so again after a further turn on that history.
\<close>

theorem tool_messages_matched:
  "tool_ids_matched default_history \<and>
   (tool_ids_matched (case hist of None \<Rightarrow> default_history | Some h0 \<Rightarrow> h0) \<longrightarrow>
      tool_ids_matched (snd (run_conversation w p hist)) \<and>
      tool_ids_matched (snd (run_conversation w' p' (Some (snd (run_conversation w p hist))))))"
proof (intro conjI impI)
  show "tool_ids_matched default_history" by (rule default_history_ids)
next
  assume a: "tool_ids_matched (case hist of None \<Rightarrow> default_history | Some h0 \<Rightarrow> h0)"
  then show one: "tool_ids_matched (snd (run_conversation w p hist))"
    by (rule run_conversation_ids)
  then show "tool_ids_matched (snd (run_conversation w' p' (Some (snd (run_conversation w p hist)))))"
    using run_conversation_ids [of "Some (snd (run_conversation w p hist))" w' p'] by simp
qed

lemma example_two_turns:
  "snd (run_conversation (scripted (answer ''TOOL: WEB_SEARCH'') (answer ''ok'') (answer ''done'')) ''q''
     (Some (snd (run_conversation (scripted (answer ''TOOL: WEB_SEARCH'') (answer ''ok'') (answer ''done'')) ''q'' (Some []))))) =
   [dict_message ''user'' (Some ''q''),
    tool_call_message ''forced_web_search_call'' ''web_search'' (dumps_str ''query'' ''q''),
    tool_message ''forced_web_search_call'' ''web_search'' ''No results found'',
    dict_message ''assistant'' (Some ''done''),
    dict_message ''user'' (Some ''q''),
    tool_call_message ''forced_web_search_call'' ''web_search'' (dumps_str ''query'' ''q''),
    tool_message ''forced_web_search_call'' ''web_search'' ''No results found'',
    dict_message ''assistant'' (Some ''done'')]"
  by code_simp

theorem tool_messages_matched_witness:
  "tool_ids_matched [] \<and>
   tool_ids_matched
     [dict_message ''user'' (Some ''q''),
      tool_call_message ''forced_web_search_call'' ''web_search'' (dumps_str ''query'' ''q''),
      tool_message ''forced_web_search_call'' ''web_search'' ''No results found'',
      dict_message ''assistant'' (Some ''done''),
      dict_message ''user'' (Some ''q''),
      tool_call_message ''forced_web_search_call'' ''web_search'' (dumps_str ''query'' ''q''),
      tool_message ''forced_web_search_call'' ''web_search'' ''No results found'',
      dict_message ''assistant'' (Some ''done'')]"
proof -
  let ?w = "scripted (answer ''TOOL: WEB_SEARCH'') (answer ''ok'') (answer ''done'')"
  have e: "tool_ids_matched []" by (simp add: tool_ids_matched_def)
  then have "tool_ids_matched (case Some [] of None \<Rightarrow> default_history | Some h0 \<Rightarrow> h0)" by simp
  with tool_messages_matched [of "Some []" ?w "''q''" ?w "''q''"]
  have "tool_ids_matched (snd (run_conversation ?w ''q'' (Some (snd (run_conversation ?w ''q'' (Some []))))))"
    by blast
  with e show ?thesis by (simp only: example_two_turns) 
qed

text \<open>
  Claim C5 as the specification states it fails across turns: the synthetic ids are fixed
  texts, so after two turns that force a web search, the second tool message matches two
  preceding tool calls, not exactly one.
\<close>

theorem synthetic_id_reused_counterexample:
  "\<not> tool_ids_exactly_one
     (snd (run_conversation (scripted (answer ''TOOL: WEB_SEARCH'') (answer ''ok'') (answer ''done'')) ''q''
        (Some (snd (run_conversation
           (scripted (answer ''TOOL: WEB_SEARCH'') (answer ''ok'') (answer ''done'')) ''q'' (Some []))))))"
  unfolding example_two_turns by code_simp

end
